theory Spec2Isabelle
  imports Main
begin

section \<open>Text and the three fixed patterns\<close>

text \<open>
  A Python \<open>str\<close> is modelled as a \<open>string\<close>; a \<open>char\<close> stands for a code point below
  256. In that range the decimal digits matched by \<open>\d\<close> are exactly \<open>0\<close> to \<open>9\<close>.
  All three regular expressions of \<open>main.py\<close> are fixed-length sequences of
  one-character classes (\<open>\d\<close> or a literal), so a pattern is a list of atoms and
  \<open>re.search\<close> is the leftmost position at which the whole list matches.
\<close>

datatype atom = Digit | Lit char

definition is_digit :: "char \<Rightarrow> bool" where
  "is_digit c = (c \<in> set ''0123456789'')"

fun atom_ok :: "atom \<Rightarrow> char \<Rightarrow> bool" where
  "atom_ok Digit c = is_digit c"
| "atom_ok (Lit a) c = (c = a)"

text \<open>\<open>match_here p s\<close>: the pattern matches a prefix of \<open>s\<close> (\<open>re.match\<close>).\<close>

fun match_here :: "atom list \<Rightarrow> string \<Rightarrow> bool" where
  "match_here [] s = True"
| "match_here (a # as) [] = False"
| "match_here (a # as) (c # cs) = (atom_ok a c \<and> match_here as cs)"

text \<open>\<open>re_search p s\<close>: start index of the leftmost match, \<open>None\<close> when there is none.\<close>

fun re_search :: "atom list \<Rightarrow> string \<Rightarrow> nat option" where
  "re_search p [] = (if match_here p [] then Some 0 else None)"
| "re_search p (c # cs) =
     (if match_here p (c # cs) then Some 0 else map_option Suc (re_search p cs))"

text \<open>\<open>s[i:j]\<close> for \<open>0 \<le> i \<le> j\<close>.\<close>

definition slice :: "string \<Rightarrow> nat \<Rightarrow> nat \<Rightarrow> string" where
  "slice s i j = take (j - i) (drop i s)"

text \<open>\<open>REGEX_FILENAME_DATE = r'(?P<year>\d{4})(?P<month>\d{2})(?P<day>\d{2})'\<close>\<close>

definition REGEX_FILENAME_DATE :: "atom list" where
  "REGEX_FILENAME_DATE = replicate 4 Digit @ replicate 2 Digit @ replicate 2 Digit"

text \<open>\<open>r'at (\d{2})\.(\d{2})\.(\d{2})'\<close>\<close>

definition REGEX_FILENAME_TIME :: "atom list" where
  "REGEX_FILENAME_TIME =
     map Lit ''at '' @ replicate 2 Digit @ [Lit CHR ''.''] @ replicate 2 Digit
       @ [Lit CHR ''.''] @ replicate 2 Digit"

text \<open>\<open>exif_date_pattern = r'\d{4}:\d{2}:\d{2} \d{2}:\d{2}:\d{2}'\<close>\<close>

definition exif_date_pattern :: "atom list" where
  "exif_date_pattern =
     replicate 4 Digit @ [Lit CHR '':''] @ replicate 2 Digit @ [Lit CHR '':'']
       @ replicate 2 Digit @ [Lit CHR '' ''] @ replicate 2 Digit @ [Lit CHR '':'']
       @ replicate 2 Digit @ [Lit CHR '':''] @ replicate 2 Digit"


definition VIDEO_EXT :: "string list" where
  "VIDEO_EXT = [''mp4'']"

definition IMAGE_EXT :: "string list" where
  "IMAGE_EXT = [''jpeg'', ''jpg'']"

section \<open>The candidate file and the observable events\<close>

type_synonym bytes = string

text \<open>The dataclass \<open>File\<close>; \<open>File_default\<close> is \<open>File()\<close>, every field at its default.\<close>

record File =
  filename :: string
  file_path :: string
  new_file_path :: string
  extension :: string
  parsed_date :: string
  exif_bytes :: bytes
  relative_dir :: string

definition File_default :: File where
  "File_default = \<lparr>filename = [], file_path = [], new_file_path = [], extension = [],
     parsed_date = [], exif_bytes = [], relative_dir = []\<rparr>"

text \<open>
  A value of the \<open>Exif\<close> dictionary that \<open>piexif.load\<close> returns is a byte string or
  something else (an integer, a tuple of integers); the dictionary is the list of its
  items in iteration order.
\<close>

datatype exif_value = Bytes bytes | NotBytes

type_synonym exif_ifd = "(nat \<times> exif_value) list"

text \<open>Exceptions that the modelled calls can raise.\<close>

datatype exn =
    FileNotFoundError
  | NotADirectoryError
  | IsADirectoryError
  | FileExistsError
  | UnidentifiedImageError
  | ExifLoadError
  | ImageSaveError

text \<open>
  One constructor for each logging and spinner call of \<open>main.py\<close>, carrying the values
  that the message interpolates.
\<close>

datatype event =
    Debug_found_exif_date string          \<comment> \<open>\<open>logger.debug(f'Found EXIF date: {decoded_value}')\<close>\<close>
  | Debug_parsed_date string              \<comment> \<open>\<open>logger.debug(f'Parsed date: {file.parsed_date}')\<close>\<close>
  | Debug_exif_created exif_ifd           \<comment> \<open>\<open>logger.debug(f'EXIF data created: {exif_dict}')\<close>\<close>
  | Debug_skipping_exists string          \<comment> \<open>\<open>logger.debug(f"Skipping '{file.filename}' - already exists")\<close>\<close>
  | Debug_video_saved string              \<comment> \<open>\<open>logger.debug(f"Video saved: {file.new_file_path}")\<close>\<close>
  | Debug_image_saved string              \<comment> \<open>\<open>logger.debug(f"Image saved: {file.new_file_path}")\<close>\<close>
  | Error_exiftool_failed string          \<comment> \<open>\<open>logger.error(f"exiftool failed: {e.stderr}")\<close>\<close>
  | Warning_verification_failed string    \<comment> \<open>\<open>logger.warning(f"Warning: EXIF verification failed for '{new_file_path}'")\<close>\<close>
  | Spinner_start                         \<comment> \<open>\<open>spinner.start()\<close>\<close>
  | Spinner_processing string             \<comment> \<open>\<open>spinner.text = f'Processing: {file.filename}'\<close>\<close>
  | Spinner_info_has_exif string          \<comment> \<open>\<open>spinner.info(f"Skipping file: '{file.filename}' - already has EXIF date")\<close>\<close>
  | Spinner_warn_no_date string           \<comment> \<open>\<open>spinner.warn(f"Skipping file: '{file.filename}' - no date found in filename")\<close>\<close>
  | Spinner_fail_no_exiftool string       \<comment> \<open>\<open>spinner.fail(f"Skipping video '{file.filename}' - exiftool not installed")\<close>\<close>
  | Spinner_succeed_file string string    \<comment> \<open>\<open>spinner.succeed(f"{file.filename} -> {file.parsed_date}")\<close>\<close>
  | Spinner_info_error exn                \<comment> \<open>\<open>spinner.info(f"An error occurred: {str(e)}")\<close>\<close>
  | Spinner_succeed_run_complete          \<comment> \<open>\<open>spinner.succeed("Run complete.")\<close>\<close>

section \<open>Filename date parser\<close>

text \<open>
  \<open>parse_filename_to_date\<close> sets \<open>file.parsed_date\<close> and logs it when the date pattern
  is found, and returns the file; the second component is the list of logging calls
  made.
\<close>

definition parse_filename_to_date :: "File \<Rightarrow> File \<times> event list" where
  "parse_filename_to_date f =
     (let date_match = re_search REGEX_FILENAME_DATE (filename f);
          time_match = re_search REGEX_FILENAME_TIME (filename f)
      in case date_match of
           None \<Rightarrow> (f, [])
         | Some i \<Rightarrow>
             let s = filename f;
                 date_str = slice s i (i + 4) @ '':'' @ slice s (i + 4) (i + 6) @ '':''
                              @ slice s (i + 6) (i + 8);
                 time_str =
                   (case time_match of
                      Some j \<Rightarrow> slice s (j + 3) (j + 5) @ '':'' @ slice s (j + 6) (j + 8)
                                  @ '':'' @ slice s (j + 9) (j + 11)
                    | None \<Rightarrow> ''00:00:00'');
                 f' = f\<lparr>parsed_date := date_str @ '' '' @ time_str\<rparr>
             in (f', [Debug_parsed_date (parsed_date f')]))"

section \<open>Paths\<close>

text \<open>\<open>posixpath.join\<close> of two components.\<close>

definition os_path_join :: "string \<Rightarrow> string \<Rightarrow> string" where
  "os_path_join a b =
     (if b \<noteq> [] \<and> hd b = CHR ''/'' then b
      else if a = [] \<or> last a = CHR ''/'' then a @ b
      else a @ ''/'' @ b)"

text \<open>\<open>posixpath.basename\<close>: what follows the last slash.\<close>

definition os_path_basename :: "string \<Rightarrow> string" where
  "os_path_basename p = rev (takeWhile (\<lambda>c. c \<noteq> CHR ''/'') (rev p))"




section \<open>File inventory builder\<close>

text \<open>
  What \<open>os.listdir\<close> and \<open>os.walk\<close> see under the input path: a regular file, a
  directory with its named entries, or something else (a FIFO, a socket, a dangling
  link). The argument \<open>root\<close> of the builder is the entry at the input path, \<open>None\<close>
  when nothing is there.
\<close>

datatype entry = Regular | Special | Directory "(string \<times> entry) list"







section \<open>The file store and the codecs\<close>

text \<open>
  The commit engine reads and writes single paths, so the store it works on is a map
  from path strings to nodes. Directories other than the ones the engine names are
  not tracked.
\<close>

datatype node = FileNode bytes | DirNode

record world =
  fs :: "string \<rightharpoonup> node"
  events :: "event list"

definition emit :: "event \<Rightarrow> world \<Rightarrow> world" where
  "emit e w = w\<lparr>events := events w @ [e]\<rparr>"

text \<open>
  The collaborators outside the repository (Pillow, piexif, the UTF-8 decoder, the
  \<open>exiftool\<close> program) are parameters of the model:
  \<^item> \<open>image_decodable c\<close>: \<open>Image.open\<close> accepts a file with content \<open>c\<close>;
  \<^item> \<open>image_info_exif c\<close>: \<open>im.info.get("exif")\<close> of the opened image;
  \<^item> \<open>piexif_load_Exif b\<close>: \<open>piexif.load(b).get('Exif')\<close>, \<open>None\<close> when \<open>piexif.load\<close> raises;
  \<^item> \<open>bytes_decode_utf8 b\<close>: \<open>b.decode('utf-8')\<close>, \<open>None\<close> for \<open>UnicodeDecodeError\<close>;
  \<^item> \<open>piexif_dump d\<close>: \<open>piexif.dump({'Exif': d})\<close>;
  \<^item> \<open>image_save c b\<close>: the bytes that \<open>img.save(path, exif=b)\<close> writes for the image opened
    from content \<open>c\<close>, \<open>None\<close> when it raises;
  \<^item> \<open>shutil_which_exiftool\<close>: \<open>shutil.which('exiftool') is not None\<close>;
  \<^item> \<open>exiftool d c\<close>: the run of \<open>exiftool\<close> with the four date tags set to \<open>d\<close> on a file
    of content \<open>c\<close>: exit status, standard error, and the content left in the file.
\<close>

record env =
  image_decodable :: "bytes \<Rightarrow> bool"
  image_info_exif :: "bytes \<Rightarrow> bytes option"
  piexif_load_Exif :: "bytes \<Rightarrow> exif_ifd option"
  bytes_decode_utf8 :: "bytes \<Rightarrow> string option"
  piexif_dump :: "exif_ifd \<Rightarrow> bytes"
  image_save :: "bytes \<Rightarrow> bytes \<Rightarrow> bytes option"
  shutil_which_exiftool :: bool
  exiftool :: "string \<Rightarrow> bytes \<Rightarrow> nat \<times> string \<times> bytes"

text \<open>\<open>open(path, 'rb')\<close> and reading the file.\<close>

definition open_rb :: "string \<Rightarrow> world \<Rightarrow> exn + bytes" where
  "open_rb p w =
     (case fs w p of
        None \<Rightarrow> Inl FileNotFoundError
      | Some DirNode \<Rightarrow> Inl IsADirectoryError
      | Some (FileNode c) \<Rightarrow> Inr c)"

text \<open>\<open>Image.open(path)\<close>; the opened image is represented by the content it was read from.\<close>

definition Image_open :: "env \<Rightarrow> string \<Rightarrow> world \<Rightarrow> exn + bytes" where
  "Image_open E p w =
     (case open_rb p w of
        Inl x \<Rightarrow> Inl x
      | Inr c \<Rightarrow> if image_decodable E c then Inr c else Inl UnidentifiedImageError)"

definition os_path_exists :: "string \<Rightarrow> world \<Rightarrow> bool" where
  "os_path_exists p w = (fs w p \<noteq> None)"

text \<open>\<open>os.remove(path)\<close>\<close>

definition os_remove :: "string \<Rightarrow> world \<Rightarrow> exn + world" where
  "os_remove p w =
     (case fs w p of
        None \<Rightarrow> Inl FileNotFoundError
      | Some DirNode \<Rightarrow> Inl IsADirectoryError
      | Some (FileNode c) \<Rightarrow> Inr (w\<lparr>fs := (fs w)(p := None)\<rparr>))"

text \<open>\<open>os.makedirs(path, exist_ok=True)\<close>\<close>

definition os_makedirs :: "string \<Rightarrow> world \<Rightarrow> exn + world" where
  "os_makedirs p w =
     (case fs w p of
        None \<Rightarrow> Inr (w\<lparr>fs := (fs w)(p \<mapsto> DirNode)\<rparr>)
      | Some DirNode \<Rightarrow> Inr w
      | Some (FileNode c) \<Rightarrow> Inl FileExistsError)"

text \<open>\<open>shutil.copy2(src, dst)\<close>; a directory as \<open>dst\<close> receives the file under its own name.\<close>

definition shutil_copy2 :: "string \<Rightarrow> string \<Rightarrow> world \<Rightarrow> exn + world" where
  "shutil_copy2 src dst w =
     (case open_rb src w of
        Inl x \<Rightarrow> Inl x
      | Inr c \<Rightarrow>
          let dst' = (if fs w dst = Some DirNode
                      then os_path_join dst (os_path_basename src) else dst)
          in if fs w dst' = Some DirNode then Inl IsADirectoryError
             else Inr (w\<lparr>fs := (fs w)(dst' \<mapsto> FileNode c)\<rparr>))"

text \<open>\<open>str.encode('utf-8')\<close> on code points below 256.\<close>

definition encode_utf8 :: "string \<Rightarrow> bytes" where
  "encode_utf8 s =
     concat (map (\<lambda>c. let n = (of_char c :: nat)
                       in if n < 128 then [c]
                          else [char_of (192 + n div 64), char_of (128 + n mod 64)]) s)"

section \<open>Metadata presence check\<close>

definition export_exif_data :: "env \<Rightarrow> File \<Rightarrow> world \<Rightarrow> exn + exif_ifd option" where
  "export_exif_data E file w =
     (case Image_open E (file_path file) w of
        Inl x \<Rightarrow> Inl x
      | Inr im \<Rightarrow>
          (case image_info_exif E im of
             None \<Rightarrow> Inr None
           | Some exif_data \<Rightarrow>
               if exif_data = [] then Inr None
               else (case piexif_load_Exif E exif_data of
                       None \<Rightarrow> Inl ExifLoadError
                     | Some d \<Rightarrow> Inr (Some d))))"

text \<open>The loop of \<open>check_exif\<close> over \<open>data.items()\<close>.\<close>

fun check_exif_items :: "env \<Rightarrow> exif_ifd \<Rightarrow> world \<Rightarrow> bool \<times> world" where
  "check_exif_items E [] w = (False, w)"
| "check_exif_items E ((tag_id, v) # items) w =
     (case v of
        NotBytes \<Rightarrow> check_exif_items E items w
      | Bytes b \<Rightarrow>
          (case bytes_decode_utf8 E b of
             None \<Rightarrow> check_exif_items E items w
           | Some decoded_value \<Rightarrow>
               if re_search exif_date_pattern decoded_value \<noteq> None
               then (True, emit (Debug_found_exif_date decoded_value) w)
               else check_exif_items E items w))"

definition check_exif :: "env \<Rightarrow> File \<Rightarrow> world \<Rightarrow> (exn + bool) \<times> world" where
  "check_exif E file w =
     (case export_exif_data E file w of
        Inl x \<Rightarrow> (Inl x, w)
      | Inr None \<Rightarrow> (Inr False, w)
      | Inr (Some d) \<Rightarrow>
          if d = [] then (Inr False, w)
          else (let (found, w') = check_exif_items E d w in (Inr found, w')))"

section \<open>Metadata synthesizer and commit engine\<close>

text \<open>\<open>piexif.ExifIFD.DateTimeOriginal\<close> and \<open>piexif.ExifIFD.DateTimeDigitized\<close>\<close>

definition DateTimeOriginal :: nat where
  "DateTimeOriginal = 36867"

definition DateTimeDigitized :: nat where
  "DateTimeDigitized = 36868"

definition new_image_exif_data :: "env \<Rightarrow> File \<Rightarrow> world \<Rightarrow> (File \<times> bytes) \<times> world" where
  "new_image_exif_data E file w =
     (let date_time = parsed_date file;
          exif_dict = [(DateTimeOriginal, Bytes (encode_utf8 date_time)),
                       (DateTimeDigitized, Bytes (encode_utf8 date_time))];
          w1 = emit (Debug_exif_created exif_dict) w;
          eb = piexif_dump E exif_dict
      in ((file\<lparr>exif_bytes := eb\<rparr>, eb), w1))"

definition check_exiftool :: "env \<Rightarrow> bool" where
  "check_exiftool E = shutil_which_exiftool E"

text \<open>The target directory and the target path that both save functions compute.\<close>

definition target_dir :: "File \<Rightarrow> string \<Rightarrow> string" where
  "target_dir file output_path =
     (if relative_dir file \<noteq> [] then os_path_join output_path (relative_dir file)
      else output_path)"

definition target_path :: "File \<Rightarrow> string \<Rightarrow> string" where
  "target_path file output_path = os_path_join (target_dir file output_path) (filename file)"

text \<open>
  \<open>save_video_exif_data(file, output_path, overwrite)\<close>. The result is \<open>Inl\<close> for an
  exception that leaves the function, \<open>Inr None\<close> for \<open>return None\<close> and
  \<open>Inr (Some file)\<close> for \<open>return file\<close>.
\<close>

definition save_video_exif_data ::
    "env \<Rightarrow> File \<Rightarrow> string \<Rightarrow> bool \<Rightarrow> world \<Rightarrow> (exn + File option) \<times> world" where
  "save_video_exif_data E file output_path overwrite w =
     (let tdir = target_dir file output_path in
      case os_makedirs tdir w of
        Inl x \<Rightarrow> (Inl x, w)
      | Inr w1 \<Rightarrow>
          let nfp = os_path_join tdir (filename file) in
          if os_path_exists nfp w1 \<and> \<not> overwrite
          then (Inr None, emit (Debug_skipping_exists (filename file)) w1)
          else
            (case (if os_path_exists nfp w1 then os_remove nfp w1 else Inr w1) of
               Inl x \<Rightarrow> (Inl x, w1)
             | Inr w2 \<Rightarrow>
                 (case shutil_copy2 (file_path file) nfp w2 of
                    Inl x \<Rightarrow> (Inl x, w2)
                  | Inr w3 \<Rightarrow>
                      (case open_rb nfp w3 of
                         Inl x \<Rightarrow> (Inl x, w3)
                       | Inr c \<Rightarrow>
                           let (returncode, stderr, c') = exiftool E (parsed_date file) c;
                               w4 = w3\<lparr>fs := (fs w3)(nfp \<mapsto> FileNode c')\<rparr>
                           in if returncode = 0
                              then (Inr (Some (file\<lparr>new_file_path := nfp\<rparr>)),
                                    emit (Debug_video_saved nfp) w4)
                              else
                                (let w5 = emit (Error_exiftool_failed stderr) w4
                                 in case os_remove nfp w5 of
                                      Inl x \<Rightarrow> (Inl x, w5)
                                    | Inr w6 \<Rightarrow> (Inr None, w6))))))"

text \<open>\<open>save_exif_data(file, img, output_path, overwrite)\<close>\<close>

definition save_exif_data ::
    "env \<Rightarrow> File \<Rightarrow> bytes \<Rightarrow> string \<Rightarrow> bool \<Rightarrow> world \<Rightarrow> (exn + File option) \<times> world" where
  "save_exif_data E file img output_path overwrite w =
     (let tdir = target_dir file output_path in
      case os_makedirs tdir w of
        Inl x \<Rightarrow> (Inl x, w)
      | Inr w1 \<Rightarrow>
          let nfp = os_path_join tdir (filename file) in
          if os_path_exists nfp w1 \<and> \<not> overwrite
          then (Inr None, emit (Debug_skipping_exists (filename file)) w1)
          else
            (case (if os_path_exists nfp w1 then os_remove nfp w1 else Inr w1) of
               Inl x \<Rightarrow> (Inl x, w1)
             | Inr w2 \<Rightarrow>
                 (case image_save E img (exif_bytes file) of
                    None \<Rightarrow> (Inl ImageSaveError, w2)
                  | Some c \<Rightarrow>
                      let w3 = w2\<lparr>fs := (fs w2)(nfp \<mapsto> FileNode c)\<rparr>;
                          file' = file\<lparr>new_file_path := nfp\<rparr>;
                          w4 = emit (Debug_image_saved nfp) w3;
                          saved_file = File_default\<lparr>filename := filename file', file_path := nfp,
                                          new_file_path := nfp, extension := extension file'\<rparr>
                      in case check_exif E saved_file w4 of
                           (Inl x, w5) \<Rightarrow> (Inl x, w5)
                         | (Inr found, w5) \<Rightarrow>
                             (Inr (Some file'),
                              if \<not> found then emit (Warning_verification_failed nfp) w5
                              else w5))))"

section \<open>Orchestrator\<close>

record args =
  input_path :: string
  output_path :: string
  recursive :: bool
  overwrite :: bool

definition process_file :: "env \<Rightarrow> File \<Rightarrow> args \<Rightarrow> world \<Rightarrow> (exn + unit) \<times> world" where
  "process_file E file a w =
     (let is_video = (extension file \<in> set VIDEO_EXT) in
      case (if is_video then (Inr False, w) else check_exif E file w) of
        (Inl x, w1) \<Rightarrow> (Inl x, w1)
      | (Inr True, w1) \<Rightarrow> (Inr (), emit (Spinner_info_has_exif (filename file)) w1)
      | (Inr False, w1) \<Rightarrow>
          let (file1, logged) = parse_filename_to_date file;
              w2 = w1\<lparr>events := events w1 @ logged\<rparr>
          in if parsed_date file1 = []
             then (Inr (), emit (Spinner_warn_no_date (filename file1)) w2)
             else
               (case (if is_video
                      then (if \<not> check_exiftool E
                            then (Inr None, emit (Spinner_fail_no_exiftool (filename file1)) w2)
                            else save_video_exif_data E file1 (output_path a) (overwrite a) w2)
                      else (case Image_open E (file_path file1) w2 of
                              Inl x \<Rightarrow> (Inl x, w2)
                            | Inr im \<Rightarrow>
                                let ((file2, exif), w3) = new_image_exif_data E file1 w2
                                in save_exif_data E file2 im (output_path a) (overwrite a) w3)) of
                  (Inl x, w4) \<Rightarrow> (Inl x, w4)
                | (Inr None, w4) \<Rightarrow> (Inr (), w4)
                | (Inr (Some file3), w4) \<Rightarrow>
                    (Inr (), emit (Spinner_succeed_file (filename file3) (parsed_date file3)) w4)))"

text \<open>One iteration of the loop of \<open>main\<close>, and the loop.\<close>

definition main_step :: "env \<Rightarrow> args \<Rightarrow> File \<Rightarrow> world \<Rightarrow> world" where
  "main_step E a file w =
     (case process_file E file a (emit (Spinner_processing (filename file)) w) of
        (Inl x, w') \<Rightarrow> emit (Spinner_info_error x) w'
      | (Inr u, w') \<Rightarrow> w')"

fun main_loop :: "env \<Rightarrow> args \<Rightarrow> File list \<Rightarrow> world \<Rightarrow> world" where
  "main_loop E a [] w = w"
| "main_loop E a (file # files) w = main_loop E a files (main_step E a file w)"


section \<open>Vocabulary of the claims about the parser\<close>

text \<open>
  \<open>occurs_at p s i\<close>: the pattern \<open>p\<close> matches the characters of \<open>s\<close> from position
  \<open>i\<close> on; \<open>first_occurrence\<close>: and at no earlier position.
\<close>

definition occurs_at :: "atom list \<Rightarrow> string \<Rightarrow> nat \<Rightarrow> bool" where
  "occurs_at p s i =
     (i + length p \<le> length s \<and> (\<forall>k < length p. atom_ok (p ! k) (s ! (i + k))))"

definition first_occurrence :: "atom list \<Rightarrow> string \<Rightarrow> nat \<Rightarrow> bool" where
  "first_occurrence p s i = (occurs_at p s i \<and> (\<forall>j < i. \<not> occurs_at p s j))"

definition occurs :: "atom list \<Rightarrow> string \<Rightarrow> bool" where
  "occurs p s = (\<exists>i \<le> length s. occurs_at p s i)"

text \<open>
  A digit run starts at \<open>i\<close> when \<open>s ! i\<close> is a digit and its left neighbour is not;
  its length is the number of digits from \<open>i\<close> on.
\<close>

definition run_start :: "string \<Rightarrow> nat \<Rightarrow> bool" where
  "run_start s i = (i < length s \<and> is_digit (s ! i) \<and> (i = 0 \<or> \<not> is_digit (s ! (i - 1))))"

definition run_length :: "string \<Rightarrow> nat \<Rightarrow> nat" where
  "run_length s i = length (takeWhile is_digit (drop i s))"

text \<open>\<open>leftmost_run m s i\<close>: the leftmost run of at least \<open>m\<close> digits starts at \<open>i\<close>.\<close>

definition leftmost_run :: "nat \<Rightarrow> string \<Rightarrow> nat \<Rightarrow> bool" where
  "leftmost_run m s i =
     (run_start s i \<and> m \<le> run_length s i
        \<and> (\<forall>j < i. \<not> (run_start s j \<and> m \<le> run_length s j)))"

text \<open>
  The date text \<open>YYYY:MM:DD\<close> made of the eight characters of \<open>s\<close> from position
  \<open>i\<close> on: four for the year, two for the month, two for the day.
\<close>

definition date_at :: "string \<Rightarrow> nat \<Rightarrow> string" where
  "date_at s i =
     [s ! i, s ! (i + 1), s ! (i + 2), s ! (i + 3), CHR '':'',
      s ! (i + 4), s ! (i + 5), CHR '':'', s ! (i + 6), s ! (i + 7)]"

text \<open>
  The time text \<open>HH:MM:SS\<close> made of the three digit pairs of the token
  \<open>at dd.dd.dd\<close> that starts at position \<open>j\<close>.
\<close>

definition time_at :: "string \<Rightarrow> nat \<Rightarrow> string" where
  "time_at s j =
     [s ! (j + 3), s ! (j + 4), CHR '':'', s ! (j + 6), s ! (j + 7), CHR '':'',
      s ! (j + 9), s ! (j + 10)]"

section \<open>Vocabulary of the claims about the commit engine\<close>

text \<open>
  The outcomes that the specification names. \<open>main.py\<close> has no such value: the outcome
  of a file is read off the last call that \<open>process_file\<close> makes for it, or off the
  exception that leaves it.
\<close>

datatype outcome =
    skipped_has_metadata
  | skipped_no_date_found
  | skipped_destination_exists
  | skipped_tool_unavailable
  | written
  | failed

definition outcome_of :: "(exn + unit) \<times> world \<Rightarrow> outcome option" where
  "outcome_of rw =
     (case fst rw of
        Inl x \<Rightarrow> Some failed
      | Inr u \<Rightarrow>
          (case rev (events (snd rw)) of
             [] \<Rightarrow> None
           | e # es \<Rightarrow>
               (case e of
                  Spinner_info_has_exif n \<Rightarrow> Some skipped_has_metadata
                | Spinner_warn_no_date n \<Rightarrow> Some skipped_no_date_found
                | Debug_skipping_exists n \<Rightarrow> Some skipped_destination_exists
                | Spinner_fail_no_exiftool n \<Rightarrow> Some skipped_tool_unavailable
                | Spinner_succeed_file n d \<Rightarrow> Some written
                | Error_exiftool_failed err \<Rightarrow> Some failed
                | _ \<Rightarrow> None)))"

text \<open>
  \<open>can_commit file out ov w\<close>: nothing stands in the way of writing the target of
  \<open>file\<close> under the output path \<open>out\<close>: its directory exists or can be made, and the
  target path is free, or holds a file that may be overwritten.
\<close>

definition can_commit :: "File \<Rightarrow> string \<Rightarrow> bool \<Rightarrow> world \<Rightarrow> bool" where
  "can_commit file out ov w =
     ((fs w (target_dir file out) = None \<or> fs w (target_dir file out) = Some DirNode)
      \<and> target_path file out \<noteq> target_dir file out
      \<and> (fs w (target_path file out) = None
          \<or> (ov \<and> (\<exists>c. fs w (target_path file out) = Some (FileNode c)))))"

text \<open>\<open>attempted evs\<close>: the file names announced by \<open>spinner.text\<close>, in order.\<close>

definition attempted :: "event list \<Rightarrow> string list" where
  "attempted evs = concat (map (\<lambda>e. case e of Spinner_processing n \<Rightarrow> [n] | _ \<Rightarrow> []) evs)"

section \<open>A concrete instance\<close>

text \<open>
  An instance of the collaborators on which the model runs: an image is the marker
  \<open>JPG\<close> followed by its EXIF block, which holds one field and is malformed when it
  starts with \<open>!\<close>; saving writes the marker and the new block; the tool appends the
  date to the file.
\<close>

definition example_env :: env where
  "example_env =
     \<lparr>image_decodable = (\<lambda>c. take 3 c = ''JPG''),
      image_info_exif = (\<lambda>c. if drop 3 c = [] then None else Some (drop 3 c)),
      piexif_load_Exif = (\<lambda>b. if take 1 b = ''!'' then None else Some [(DateTimeOriginal, Bytes b)]),
      bytes_decode_utf8 = (\<lambda>b. if \<forall>c \<in> set b. (of_char c :: nat) < 128 then Some b else None),
      piexif_dump = (\<lambda>d. case d of (t, Bytes b) # r \<Rightarrow> b | _ \<Rightarrow> []),
      image_save = (\<lambda>c b. Some (''JPG'' @ b)),
      shutil_which_exiftool = True,
      exiftool = (\<lambda>d c. (0, [], c @ d))\<rparr>"

definition example_world :: world where
  "example_world =
     \<lparr>fs = [''/in/IMG-20230415-WA0001.jpg'' \<mapsto> FileNode ''JPG'',
             ''/in/VID-20230415-WA0002.mp4'' \<mapsto> FileNode ''MP4'',
             ''/in/notes.jpg'' \<mapsto> FileNode ''hello''],
      events = []\<rparr>"

definition example_image :: File where
  "example_image = File_default\<lparr>filename := ''IMG-20230415-WA0001.jpg'',
     file_path := ''/in/IMG-20230415-WA0001.jpg'', extension := ''jpg''\<rparr>"

definition example_video :: File where
  "example_video = File_default\<lparr>filename := ''VID-20230415-WA0002.mp4'',
     file_path := ''/in/VID-20230415-WA0002.mp4'', extension := ''mp4''\<rparr>"

definition example_args :: args where
  "example_args = \<lparr>input_path = ''/in'', output_path = ''/out'', recursive = False, overwrite = False\<rparr>"

text \<open>
  \<open>prepared file out w\<close>: the store in which a save function starts to write: the target
  directory is there and the target path is free.
\<close>

definition prepared :: "File \<Rightarrow> string \<Rightarrow> world \<Rightarrow> world" where
  "prepared file out w =
     w\<lparr>fs := (fs w)(target_dir file out \<mapsto> DirNode, target_path file out := None)\<rparr>"

text \<open>
  \<open>new_events w w'\<close>: the calls logged on the way from \<open>w\<close> to \<open>w'\<close>.
\<close>

definition new_events :: "world \<Rightarrow> world \<Rightarrow> event list" where
  "new_events w w' = drop (length (events w)) (events w')"

text \<open>
  The instance after an earlier run: both target paths are taken.
\<close>

definition example_world_taken :: world where
  "example_world_taken =
     example_world\<lparr>fs := (fs example_world)
        (''/out'' \<mapsto> DirNode,
         ''/out/IMG-20230415-WA0001.jpg'' \<mapsto> FileNode ''JPGold'',
         ''/out/VID-20230415-WA0002.mp4'' \<mapsto> FileNode ''MP4old'')\<rparr>"

text \<open>
  A file with an image extension whose content is not an image, and the directory at
  the input path of the instance.
\<close>

definition example_notes :: File where
  "example_notes = File_default\<lparr>filename := ''notes.jpg'', file_path := ''/in/notes.jpg'',
     extension := ''jpg''\<rparr>"


text \<open>
  \<open>located t rel n e\<close>: in the tree \<open>t\<close>, the directory reached from the top by the
  names \<open>rel\<close> has an entry named \<open>n\<close>, which is \<open>e\<close>.
\<close>

inductive located :: "entry \<Rightarrow> string list \<Rightarrow> string \<Rightarrow> entry \<Rightarrow> bool" where
  here: "(n, e) \<in> set ents \<Longrightarrow> located (Directory ents) [] n e"
| below: "(d, sub) \<in> set ents \<Longrightarrow> located sub rel n e \<Longrightarrow> located (Directory ents) (d # rel) n e"


text \<open>
  The instance with an image that already carries a date field.
\<close>

definition example_world_tagged :: world where
  "example_world_tagged =
     \<lparr>fs = [''/in/IMG-20230415-WA0001.jpg'' \<mapsto> FileNode ''JPG2021:01:02 03:04:05''],
      events = []\<rparr>"

section \<open>Properties of the pattern search\<close>

lemma match_here_iff:
  "match_here p s \<longleftrightarrow> length p \<le> length s \<and> (\<forall>k < length p. atom_ok (p ! k) (s ! k))"
proof (induction p s rule: match_here.induct)
  case (3 a as c cs)
  then show ?case
    by (auto simp: less_Suc_eq_0_disj)
qed simp_all

lemma occurs_at_Cons_Suc: "occurs_at p (c # cs) (Suc i) = occurs_at p cs i"
  by (simp add: occurs_at_def)

lemma occurs_at_0: "occurs_at p s 0 = match_here p s"
  by (simp add: match_here_iff occurs_at_def)

lemma re_search_Some: "re_search p s = Some i \<longleftrightarrow> first_occurrence p s i"
proof (induction s arbitrary: i)
  case Nil
  show ?case
    by (auto simp: first_occurrence_def occurs_at_def match_here_iff)
next
  case (Cons c cs)
  show ?case
  proof (cases "match_here p (c # cs)")
    case True
    then have "occurs_at p (c # cs) 0"
      by (simp add: occurs_at_0)
    then have "first_occurrence p (c # cs) i \<longleftrightarrow> i = 0"
      by (cases i) (auto simp: first_occurrence_def)
    with True show ?thesis
      by auto
  next
    case False
    then have no0: "\<not> occurs_at p (c # cs) 0"
      by (simp add: occurs_at_0)
    show ?thesis
    proof (cases i)
      case 0
      with False no0 show ?thesis
        by (auto simp: first_occurrence_def)
    next
      case (Suc n)
      have "first_occurrence p (c # cs) (Suc n) \<longleftrightarrow> first_occurrence p cs n"
        using no0
        by (auto simp: first_occurrence_def occurs_at_Cons_Suc less_Suc_eq_0_disj)
      with False Suc Cons.IH [of n] show ?thesis
        by auto
    qed
  qed
qed

lemma re_search_None: "re_search p s = None \<longleftrightarrow> (\<forall>i. \<not> occurs_at p s i)"
proof
  assume none: "re_search p s = None"
  show "\<forall>i. \<not> occurs_at p s i"
  proof (rule ccontr)
    assume "\<not> (\<forall>i. \<not> occurs_at p s i)"
    then obtain i where i: "occurs_at p s i"
      by blast
    define m where "m = (LEAST j. occurs_at p s j)"
    from i have "occurs_at p s m"
      unfolding m_def by (rule LeastI)
    moreover have "\<forall>j < m. \<not> occurs_at p s j"
      unfolding m_def using not_less_Least by blast
    ultimately have "re_search p s = Some m"
      by (simp add: re_search_Some first_occurrence_def)
    with none show False
      by simp
  qed
next
  assume "\<forall>i. \<not> occurs_at p s i"
  then have "\<forall>i. re_search p s \<noteq> Some i"
    by (simp add: re_search_Some first_occurrence_def)
  then show "re_search p s = None"
    by (cases "re_search p s") auto
qed

section \<open>Digit runs and slices\<close>

lemma date_regex_replicate: "REGEX_FILENAME_DATE = replicate 8 Digit"
  unfolding REGEX_FILENAME_DATE_def by code_simp

lemma occurs_at_date:
  "occurs_at REGEX_FILENAME_DATE s i \<longleftrightarrow> i + 8 \<le> length s \<and> (\<forall>k < 8. is_digit (s ! (i + k)))"
  by (simp add: occurs_at_def date_regex_replicate)

lemma slice_nth: "j \<le> length s \<Longrightarrow> slice s i j = map (\<lambda>k. s ! k) [i..<j]"
  by (auto simp: slice_def list_eq_iff_nth_eq)

lemma upt_4: "[i..<i + 4] = [i, i + 1, i + 2, i + 3]"
  by (simp add: upt_rec numeral_eq_Suc)

lemma upt_2: "[i..<i + 2] = [i, i + 1]"
  by (simp add: upt_rec numeral_eq_Suc)

lemma run_length_ge:
  assumes "i + n \<le> length s" and "\<forall>k < n. is_digit (s ! (i + k))"
  shows "n \<le> run_length s i"
proof (rule ccontr)
  assume "\<not> n \<le> run_length s i"
  then have lt: "run_length s i < n"
    by simp
  with assms(1) have "length (takeWhile is_digit (drop i s)) < length (drop i s)"
    by (simp add: run_length_def)
  then have "\<not> is_digit (drop i s ! run_length s i)"
    unfolding run_length_def by (rule nth_length_takeWhile)
  moreover from lt assms(1) have "drop i s ! run_length s i = s ! (i + run_length s i)"
    by simp
  ultimately show False
    using assms(2) lt by simp
qed

lemma run_length_digits:
  assumes "k < run_length s i"
  shows "i + k < length s \<and> is_digit (s ! (i + k))"
proof -
  from assms have k: "k < length (takeWhile is_digit (drop i s))"
    by (simp add: run_length_def)
  have "length (takeWhile is_digit (drop i s)) \<le> length (drop i s)"
    by (rule length_takeWhile_le)
  with k have bound: "i + k < length s"
    by simp
  from k have "takeWhile is_digit (drop i s) ! k \<in> set (takeWhile is_digit (drop i s))"
    by (rule nth_mem)
  then have "is_digit (takeWhile is_digit (drop i s) ! k)"
    by (rule set_takeWhileD [THEN conjunct2])
  with k bound show ?thesis
    by (simp add: takeWhile_nth)
qed

lemma run_start_before:
  "j < length s \<Longrightarrow> is_digit (s ! j) \<Longrightarrow>
     \<exists>j' \<le> j. run_start s j' \<and> (\<forall>k. j' \<le> k \<and> k \<le> j \<longrightarrow> is_digit (s ! k))"
proof (induction j)
  case 0
  then show ?case
    by (auto simp: run_start_def)
next
  case (Suc j)
  show ?case
  proof (cases "is_digit (s ! j)")
    case True
    with Suc obtain j' where "j' \<le> j" "run_start s j'"
      "\<forall>k. j' \<le> k \<and> k \<le> j \<longrightarrow> is_digit (s ! k)"
      by auto
    with Suc.prems show ?thesis
      by (intro exI [of _ j']) (auto simp: le_Suc_eq)
  next
    case False
    with Suc.prems show ?thesis
      by (intro exI [of _ "Suc j"]) (auto simp: run_start_def)
  qed
qed

lemma leftmost_run_first_occurrence:
  assumes "leftmost_run 8 s i"
  shows "first_occurrence REGEX_FILENAME_DATE s i"
proof -
  from assms have start: "run_start s i" and len: "8 \<le> run_length s i"
    and least: "\<forall>j < i. \<not> (run_start s j \<and> 8 \<le> run_length s j)"
    by (auto simp: leftmost_run_def)
  have here: "occurs_at REGEX_FILENAME_DATE s i"
    unfolding occurs_at_date
  proof (intro conjI allI impI)
    have "i + 7 < length s"
      using run_length_digits [of 7 s i] len by simp
    then show "i + 8 \<le> length s"
      by simp
  next
    fix k :: nat
    assume "k < 8"
    with len show "is_digit (s ! (i + k))"
      using run_length_digits [of k s i] by simp
  qed
  have "\<not> occurs_at REGEX_FILENAME_DATE s j" if "j < i" for j
  proof
    assume occ: "occurs_at REGEX_FILENAME_DATE s j"
    then have bound: "j + 8 \<le> length s" and digs: "\<forall>k < 8. is_digit (s ! (j + k))"
      by (simp_all add: occurs_at_date)
    from digs have "is_digit (s ! j)"
      by (metis add.right_neutral zero_less_numeral)
    with bound obtain j' where j': "j' \<le> j" "run_start s j'"
      and before: "\<forall>k. j' \<le> k \<and> k \<le> j \<longrightarrow> is_digit (s ! k)"
      using run_start_before [of j s] by auto
    have "\<forall>k < 8 + (j - j'). is_digit (s ! (j' + k))"
    proof (intro allI impI)
      fix k
      assume k: "k < 8 + (j - j')"
      show "is_digit (s ! (j' + k))"
      proof (cases "j' + k \<le> j")
        case True
        with before show ?thesis
          by simp
      next
        case False
        with k j'(1) have "j' + k = j + (j' + k - j)" and "j' + k - j < 8"
          by simp_all
        with digs show ?thesis
          by metis
      qed
    qed
    moreover from bound j'(1) have "j' + (8 + (j - j')) \<le> length s"
      by simp
    ultimately have "8 + (j - j') \<le> run_length s j'"
      by (rule run_length_ge [rotated])
    then have "8 \<le> run_length s j'"
      by simp
    with j' that least show False
      by auto
  qed
  with here show ?thesis
    by (simp add: first_occurrence_def)
qed

lemma time_regex_length: "length REGEX_FILENAME_TIME = 11"
  unfolding REGEX_FILENAME_TIME_def by simp

lemma occurs_at_length: "occurs_at p s i \<Longrightarrow> i + length p \<le> length s"
  by (simp add: occurs_at_def)

lemma slice_2: "i + 2 \<le> length s \<Longrightarrow> slice s i (i + 2) = [s ! i, s ! (i + 1)]"
  by (simp add: slice_nth upt_2)

lemma slice_4:
  "i + 4 \<le> length s \<Longrightarrow> slice s i (i + 4) = [s ! i, s ! (i + 1), s ! (i + 2), s ! (i + 3)]"
  by (simp add: slice_nth upt_4)

lemma date_slices:
  assumes "i + 8 \<le> length s"
  shows "slice s i (i + 4) @ '':'' @ slice s (i + 4) (i + 6) @ '':'' @ slice s (i + 6) (i + 8)
           = date_at s i"
proof -
  have "slice s i (i + 4) = [s ! i, s ! (i + 1), s ! (i + 2), s ! (i + 3)]"
    using assms by (simp add: slice_4)
  moreover have "slice s (i + 4) (i + 6) = [s ! (i + 4), s ! (i + 5)]"
    using assms slice_2 [of "i + 4" s] by (simp add: ac_simps)
  moreover have "slice s (i + 6) (i + 8) = [s ! (i + 6), s ! (i + 7)]"
    using assms slice_2 [of "i + 6" s] by (simp add: ac_simps)
  ultimately show ?thesis
    by (simp add: date_at_def)
qed

lemma time_slices:
  assumes "j + 11 \<le> length s"
  shows "slice s (j + 3) (j + 5) @ '':'' @ slice s (j + 6) (j + 8) @ '':''
           @ slice s (j + 9) (j + 11) = time_at s j"
proof -
  have "slice s (j + 3) (j + 5) = [s ! (j + 3), s ! (j + 4)]"
    using assms slice_2 [of "j + 3" s] by (simp add: ac_simps)
  moreover have "slice s (j + 6) (j + 8) = [s ! (j + 6), s ! (j + 7)]"
    using assms slice_2 [of "j + 6" s] by (simp add: ac_simps)
  moreover have "slice s (j + 9) (j + 11) = [s ! (j + 9), s ! (j + 10)]"
    using assms slice_2 [of "j + 9" s] by (simp add: ac_simps)
  ultimately show ?thesis
    by (simp add: time_at_def)
qed

lemma parsed_date_found:
  assumes "first_occurrence REGEX_FILENAME_DATE (filename f) i"
  shows "parsed_date (fst (parse_filename_to_date f)) =
           date_at (filename f) i @ '' '' @
             (case re_search REGEX_FILENAME_TIME (filename f) of
                Some j \<Rightarrow> time_at (filename f) j | None \<Rightarrow> ''00:00:00'')"
proof -
  from assms have found: "re_search REGEX_FILENAME_DATE (filename f) = Some i"
    by (simp add: re_search_Some)
  from assms have "i + 8 \<le> length (filename f)"
    by (simp add: first_occurrence_def occurs_at_date)
  then have date: "slice (filename f) i (i + 4) @ '':'' @ slice (filename f) (i + 4) (i + 6)
      @ '':'' @ slice (filename f) (i + 6) (i + 8) = date_at (filename f) i"
    by (rule date_slices)
  show ?thesis
  proof (cases "re_search REGEX_FILENAME_TIME (filename f)")
    case None
    with found date show ?thesis
      by (simp add: parse_filename_to_date_def Let_def)
  next
    case (Some j)
    then have "occurs_at REGEX_FILENAME_TIME (filename f) j"
      by (simp add: re_search_Some first_occurrence_def)
    then have "j + 11 \<le> length (filename f)"
      using occurs_at_length time_regex_length by fastforce
    then have "slice (filename f) (j + 3) (j + 5) @ '':'' @ slice (filename f) (j + 6) (j + 8)
       @ '':'' @ slice (filename f) (j + 9) (j + 11) = time_at (filename f) j"
      by (rule time_slices)
    with found date Some show ?thesis
      by (simp add: parse_filename_to_date_def Let_def)
  qed
qed

section \<open>Filename date parser: the claims\<close>

text \<open>
  C1. For every filename, the parser takes the date from the first occurrence of the
  pattern four digits, two digits, two digits (read as year, month and day, whatever
  their values), takes the time from the first occurrence of the token \<open>at \<close> followed by
  \<open>dd.dd.dd\<close>, or \<open>00:00:00\<close> when that token does not occur, and sets the capture
  timestamp to \<open>YYYY:MM:DD HH:MM:SS\<close>; when the date pattern does not occur the file is
  returned as it was, whether or not the time token occurs.
\<close>

theorem parse_filename_to_date_first_occurrence:
  "(first_occurrence REGEX_FILENAME_DATE (filename f) i
      \<and> first_occurrence REGEX_FILENAME_TIME (filename f) j
      \<longrightarrow> parsed_date (fst (parse_filename_to_date f))
            = date_at (filename f) i @ '' '' @ time_at (filename f) j)
   \<and> (first_occurrence REGEX_FILENAME_DATE (filename f) i
      \<and> (\<forall>j. \<not> occurs_at REGEX_FILENAME_TIME (filename f) j)
      \<longrightarrow> parsed_date (fst (parse_filename_to_date f))
            = date_at (filename f) i @ '' 00:00:00'')
   \<and> ((\<forall>i. \<not> occurs_at REGEX_FILENAME_DATE (filename f) i)
      \<longrightarrow> fst (parse_filename_to_date f) = f)"
proof (intro conjI impI)
  assume "first_occurrence REGEX_FILENAME_DATE (filename f) i
      \<and> first_occurrence REGEX_FILENAME_TIME (filename f) j"
  then show "parsed_date (fst (parse_filename_to_date f))
            = date_at (filename f) i @ '' '' @ time_at (filename f) j"
    using parsed_date_found [of f i] by (simp add: re_search_Some [symmetric])
next
  assume "first_occurrence REGEX_FILENAME_DATE (filename f) i
      \<and> (\<forall>j. \<not> occurs_at REGEX_FILENAME_TIME (filename f) j)"
  then show "parsed_date (fst (parse_filename_to_date f))
            = date_at (filename f) i @ '' 00:00:00''"
    using parsed_date_found [of f i] by (simp add: re_search_None [symmetric])
next
  assume "\<forall>i. \<not> occurs_at REGEX_FILENAME_DATE (filename f) i"
  then have "re_search REGEX_FILENAME_DATE (filename f) = None"
    by (simp add: re_search_None)
  then show "fst (parse_filename_to_date f) = f"
    by (simp add: parse_filename_to_date_def)
qed

theorem parse_filename_to_date_first_occurrence_witness:
  "parsed_date (fst (parse_filename_to_date
       (File_default\<lparr>filename := ''IMG-20230415 at 14.05.09.jpg''\<rparr>))) = ''2023:04:15 14:05:09''
   \<and> parsed_date (fst (parse_filename_to_date
       (File_default\<lparr>filename := ''IMG-20230415-WA0001.jpg''\<rparr>))) = ''2023:04:15 00:00:00''
   \<and> parsed_date (fst (parse_filename_to_date
       (File_default\<lparr>filename := ''photo at 14.05.09.jpg''\<rparr>))) = []"
proof -
  let ?a = "''IMG-20230415 at 14.05.09.jpg''" and ?b = "''IMG-20230415-WA0001.jpg''"
    and ?c = "''photo at 14.05.09.jpg''"
  have da: "first_occurrence REGEX_FILENAME_DATE ?a 4"
    unfolding re_search_Some [symmetric] by code_simp
  have ta: "first_occurrence REGEX_FILENAME_TIME ?a 13"
    unfolding re_search_Some [symmetric] by code_simp
  have db: "first_occurrence REGEX_FILENAME_DATE ?b 4"
    unfolding re_search_Some [symmetric] by code_simp
  have tb: "\<forall>j. \<not> occurs_at REGEX_FILENAME_TIME ?b j"
    unfolding re_search_None [symmetric] by code_simp
  have dc: "\<forall>i. \<not> occurs_at REGEX_FILENAME_DATE ?c i"
    unfolding re_search_None [symmetric] by code_simp
  have va: "date_at ?a 4 @ '' '' @ time_at ?a 13 = ''2023:04:15 14:05:09''"
    by code_simp
  have vb: "date_at ?b 4 @ '' 00:00:00'' = ''2023:04:15 00:00:00''"
    by code_simp
  from da ta va have "parsed_date (fst (parse_filename_to_date (File_default\<lparr>filename := ?a\<rparr>)))
      = ''2023:04:15 14:05:09''"
    using parse_filename_to_date_first_occurrence [of "File_default\<lparr>filename := ?a\<rparr>" 4 13]
    by simp
  moreover from db tb vb
  have "parsed_date (fst (parse_filename_to_date (File_default\<lparr>filename := ?b\<rparr>)))
      = ''2023:04:15 00:00:00''"
    using parse_filename_to_date_first_occurrence [of "File_default\<lparr>filename := ?b\<rparr>" 4 0]
    by simp
  moreover from dc
  have "parsed_date (fst (parse_filename_to_date (File_default\<lparr>filename := ?c\<rparr>))) = []"
    using parse_filename_to_date_first_occurrence [of "File_default\<lparr>filename := ?c\<rparr>" 0 0]
    by (simp add: File_default_def)
  ultimately show ?thesis
    by simp
qed

text \<open>
  C10, as amended. The date pattern is not anchored to the boundaries of digit runs: the
  parser takes the first eight digits of the leftmost run of at least eight
  consecutive digits (four for the year, two for the month, two for the day), so
  the 12-digit run \<open>202304151234\<close> gives the date \<open>2023:04:15\<close>.
\<close>

theorem date_from_leftmost_run_of_eight:
  assumes "leftmost_run 8 (filename f) i"
  shows "first_occurrence REGEX_FILENAME_DATE (filename f) i
         \<and> take 10 (parsed_date (fst (parse_filename_to_date f))) = date_at (filename f) i"
proof -
  from assms have first: "first_occurrence REGEX_FILENAME_DATE (filename f) i"
    by (rule leftmost_run_first_occurrence)
  have "length (date_at (filename f) i) = 10"
    by (simp add: date_at_def)
  with first show ?thesis
    by (simp add: parsed_date_found)
qed

theorem date_from_leftmost_run_of_eight_witness:
  "leftmost_run 8 ''IMG-202304151234.jpg'' 4
   \<and> take 10 (parsed_date (fst (parse_filename_to_date
        (File_default\<lparr>filename := ''IMG-202304151234.jpg''\<rparr>)))) = ''2023:04:15''"
proof -
  let ?a = "''IMG-202304151234.jpg''"
  have run: "leftmost_run 8 ?a 4"
    by code_simp
  have "date_at ?a 4 = ''2023:04:15''"
    by code_simp
  with run show ?thesis
    using date_from_leftmost_run_of_eight [of "File_default\<lparr>filename := ?a\<rparr>" 4]
    by simp
qed

text \<open>
  C10 as stated speaks of the leftmost run of more than eight digits. In
  \<open>20200101_202304151234.jpg\<close> that run starts at position 9 and begins with
  \<open>20230415\<close>, but the parser takes the date from the run of exactly eight digits
  before it.
\<close>

theorem date_not_from_leftmost_longer_run:
  "leftmost_run 9 ''20200101_202304151234.jpg'' 9
   \<and> date_at ''20200101_202304151234.jpg'' 9 = ''2023:04:15''
   \<and> parsed_date (fst (parse_filename_to_date
        (File_default\<lparr>filename := ''20200101_202304151234.jpg''\<rparr>))) = ''2020:01:01 00:00:00''"
proof (intro conjI)
  show "leftmost_run 9 ''20200101_202304151234.jpg'' 9"
    by code_simp
  show "date_at ''20200101_202304151234.jpg'' 9 = ''2023:04:15''"
    by code_simp
  show "parsed_date (fst (parse_filename_to_date
        (File_default\<lparr>filename := ''20200101_202304151234.jpg''\<rparr>))) = ''2020:01:01 00:00:00''"
    by code_simp
qed

section \<open>The orchestrator and the commit engine\<close>

lemma parse_changes_parsed_date:
  "\<exists>d. fst (parse_filename_to_date f) = f\<lparr>parsed_date := d\<rparr>"
proof (cases "re_search REGEX_FILENAME_DATE (filename f)")
  case None
  then have "fst (parse_filename_to_date f) = f\<lparr>parsed_date := parsed_date f\<rparr>"
    by (simp add: parse_filename_to_date_def)
  then show ?thesis ..
next
  case (Some i)
  then show ?thesis
    by (auto simp: parse_filename_to_date_def Let_def)
qed

lemma parse_fields [simp]:
  "filename (fst (parse_filename_to_date f)) = filename f"
  "file_path (fst (parse_filename_to_date f)) = file_path f"
  "extension (fst (parse_filename_to_date f)) = extension f"
  "relative_dir (fst (parse_filename_to_date f)) = relative_dir f"
  using parse_changes_parsed_date [of f] by auto

lemma target_of_parsed [simp]:
  "target_dir (fst (parse_filename_to_date f)) out = target_dir f out"
  "target_path (fst (parse_filename_to_date f)) out = target_path f out"
  by (simp_all add: target_dir_def target_path_def)

lemma emit_simps [simp]:
  "fs (emit e w) = fs w"
  "events (emit e w) = events w @ [e]"
  by (simp_all add: emit_def)

lemma process_file_video_no_exiftool:
  assumes "extension file \<in> set VIDEO_EXT"
    and "parsed_date (fst (parse_filename_to_date file)) \<noteq> []"
    and "\<not> check_exiftool E"
  shows "process_file E file a w =
           (Inr (), emit (Spinner_fail_no_exiftool (filename file))
                      (w\<lparr>events := events w @ snd (parse_filename_to_date file)\<rparr>))"
  using assms by (simp add: process_file_def Let_def split_beta)

text \<open>
  C6. When \<open>exiftool\<close> is not available, every video-class file whose filename gave a
  date is reported as skipped because the tool is missing, and the file store is left
  as it was: nothing is created at the target path or anywhere else.
\<close>

theorem video_skipped_when_tool_unavailable:
  assumes "extension file \<in> set VIDEO_EXT"
    and "parsed_date (fst (parse_filename_to_date file)) \<noteq> []"
    and "\<not> check_exiftool E"
  shows "outcome_of (process_file E file a w) = Some skipped_tool_unavailable
         \<and> fs (snd (process_file E file a w)) = fs w"
  using assms by (simp add: process_file_video_no_exiftool outcome_of_def)

theorem video_skipped_when_tool_unavailable_witness:
  "outcome_of (process_file (example_env\<lparr>shutil_which_exiftool := False\<rparr>) example_video
      example_args example_world) = Some skipped_tool_unavailable
   \<and> fs (snd (process_file (example_env\<lparr>shutil_which_exiftool := False\<rparr>) example_video
      example_args example_world)) ''/out/VID-20230415-WA0002.mp4'' = None"
proof -
  have ext: "extension example_video \<in> set VIDEO_EXT"
    by (simp add: example_video_def VIDEO_EXT_def)
  have date: "parsed_date (fst (parse_filename_to_date example_video)) \<noteq> []"
    by code_simp
  have tool: "\<not> check_exiftool (example_env\<lparr>shutil_which_exiftool := False\<rparr>)"
    by (simp add: check_exiftool_def)
  have "fs example_world ''/out/VID-20230415-WA0002.mp4'' = None"
    by (simp add: example_world_def)
  with video_skipped_when_tool_unavailable [OF ext date tool, of example_args example_world]
  show ?thesis
    by simp
qed

lemma prepared_simps [simp]:
  "events (prepared file out w) = events w"
  "fs (prepared file out w) (target_path file out) = None"
  "p \<noteq> target_path file out \<Longrightarrow> p \<noteq> target_dir file out \<Longrightarrow> fs (prepared file out w) p = fs w p"
  by (simp_all add: prepared_def)

lemma prepared_parsed [simp]:
  "prepared (fst (parse_filename_to_date f)) out w = prepared f out w"
  by (simp add: prepared_def)

lemma can_commit_parsed [simp]:
  "can_commit (fst (parse_filename_to_date f)) out ov w = can_commit f out ov w"
  by (simp add: can_commit_def)

lemma can_commit_events [simp]:
  "can_commit f out ov (w\<lparr>events := evs\<rparr>) = can_commit f out ov w"
  "can_commit f out ov (emit e w) = can_commit f out ov w"
  by (simp_all add: can_commit_def emit_def)

lemma world_eqI: "fs w = fs w' \<Longrightarrow> events w = events w' \<Longrightarrow> (w :: world) = w'"
  by simp

lemma makedirs_ok:
  assumes "fs w p = None \<or> fs w p = Some DirNode"
  shows "os_makedirs p w = Inr (w\<lparr>fs := (fs w)(p \<mapsto> DirNode)\<rparr>)"
  using assms by (auto simp: os_makedirs_def fun_upd_idem intro!: world_eqI)

lemma makedirs_fail:
  "fs w p = Some (FileNode c) \<Longrightarrow> os_makedirs p w = Inl FileExistsError"
  by (simp add: os_makedirs_def)

text \<open>The state in which both save functions start to write, when nothing stands in the way.\<close>

lemma commit_prelude:
  assumes "can_commit file out ov w"
  defines "w1 \<equiv> w\<lparr>fs := (fs w)(target_dir file out \<mapsto> DirNode)\<rparr>"
  shows "os_makedirs (target_dir file out) w = Inr w1"
    and "\<not> (os_path_exists (target_path file out) w1 \<and> \<not> ov)"
    and "(if os_path_exists (target_path file out) w1 then os_remove (target_path file out) w1
          else Inr w1) = Inr (prepared file out w)"
proof -
  from assms(1) show "os_makedirs (target_dir file out) w = Inr w1"
    unfolding w1_def by (intro makedirs_ok) (simp add: can_commit_def)
  from assms(1) have same: "fs w1 (target_path file out) = fs w (target_path file out)"
    by (simp add: w1_def can_commit_def)
  with assms(1) show "\<not> (os_path_exists (target_path file out) w1 \<and> \<not> ov)"
    by (auto simp: os_path_exists_def can_commit_def)
  from assms(1) consider "fs w (target_path file out) = None"
    | c where "fs w (target_path file out) = Some (FileNode c)"
    by (auto simp: can_commit_def)
  then show "(if os_path_exists (target_path file out) w1 then os_remove (target_path file out) w1
          else Inr w1) = Inr (prepared file out w)"
  proof cases
    case 1
    with same have "fs w1 (target_path file out) = None"
      by simp
    then have "(fs w1)(target_path file out := None) = fs w1"
      by (simp add: fun_upd_idem)
    with 1 same show ?thesis
      by (auto simp: os_path_exists_def prepared_def w1_def intro!: world_eqI)
  next
    case 2
    with same show ?thesis
      by (auto simp: os_path_exists_def os_remove_def prepared_def w1_def intro!: world_eqI)
  qed
qed

lemma save_video_commit:
  assumes "can_commit file out ov w"
  shows "save_video_exif_data E file out ov w =
     (let w2 = prepared file out w; nfp = target_path file out in
      case open_rb (file_path file) w2 of
        Inl x \<Rightarrow> (Inl x, w2)
      | Inr c \<Rightarrow>
          (case exiftool E (parsed_date file) c of
             (returncode, stderr, c') \<Rightarrow>
               if returncode = 0
               then (Inr (Some (file\<lparr>new_file_path := nfp\<rparr>)),
                     emit (Debug_video_saved nfp) (w2\<lparr>fs := (fs w2)(nfp \<mapsto> FileNode c')\<rparr>))
               else (Inr None, emit (Error_exiftool_failed stderr) w2)))"
proof -
  let ?nfp = "target_path file out" and ?w2 = "prepared file out w"
  note pre = commit_prelude [OF assms]
  have head: "save_video_exif_data E file out ov w =
      (case shutil_copy2 (file_path file) ?nfp ?w2 of
         Inl x \<Rightarrow> (Inl x, ?w2)
       | Inr w3 \<Rightarrow>
           (case open_rb ?nfp w3 of
              Inl x \<Rightarrow> (Inl x, w3)
            | Inr c \<Rightarrow>
                let (returncode, stderr, c') = exiftool E (parsed_date file) c;
                    w4 = w3\<lparr>fs := (fs w3)(?nfp \<mapsto> FileNode c')\<rparr>
                in if returncode = 0
                   then (Inr (Some (file\<lparr>new_file_path := ?nfp\<rparr>)),
                         emit (Debug_video_saved ?nfp) w4)
                   else
                     (let w5 = emit (Error_exiftool_failed stderr) w4
                      in case os_remove ?nfp w5 of
                           Inl x \<Rightarrow> (Inl x, w5)
                         | Inr w6 \<Rightarrow> (Inr None, w6))))"
  proof (cases "os_path_exists ?nfp (w\<lparr>fs := (fs w)(target_dir file out \<mapsto> DirNode)\<rparr>)")
    case True
    with pre(2) have ov
      by simp
    from True pre(3) have "os_remove ?nfp (w\<lparr>fs := (fs w)(target_dir file out \<mapsto> DirNode)\<rparr>)
        = Inr ?w2"
      by simp
    with True \<open>ov\<close> show ?thesis
      unfolding save_video_exif_data_def Let_def target_path_def [symmetric]
      by (simp add: pre(1))
  next
    case False
    with pre(3) have "w\<lparr>fs := (fs w)(target_dir file out \<mapsto> DirNode)\<rparr> = ?w2"
      by simp
    with False show ?thesis
      unfolding save_video_exif_data_def Let_def target_path_def [symmetric]
      by (simp add: pre(1))
  qed
  show ?thesis
  proof (cases "open_rb (file_path file) ?w2")
    case (Inl x)
    then show ?thesis
      by (simp add: head shutil_copy2_def)
  next
    case (Inr c)
    then have copy: "shutil_copy2 (file_path file) ?nfp ?w2
        = Inr (?w2\<lparr>fs := (fs ?w2)(?nfp \<mapsto> FileNode c)\<rparr>)"
      by (simp add: shutil_copy2_def)
    obtain rc err c' where tool: "exiftool E (parsed_date file) c = (rc, err, c')"
      by (cases "exiftool E (parsed_date file) c")
    have gone: "(fs ?w2)(?nfp := None) = fs ?w2"
      by (simp add: fun_upd_idem)
    show ?thesis
      using Inr tool gone
      by (auto simp: head copy open_rb_def os_remove_def emit_def Let_def intro!: world_eqI)
  qed
qed

lemma save_exif_commit:
  assumes "can_commit file out ov w"
  shows "save_exif_data E file img out ov w =
     (let w2 = prepared file out w; nfp = target_path file out in
      case image_save E img (exif_bytes file) of
        None \<Rightarrow> (Inl ImageSaveError, w2)
      | Some c \<Rightarrow>
          (case check_exif E (File_default\<lparr>filename := filename file, file_path := nfp,
                                new_file_path := nfp, extension := extension file\<rparr>)
                  (emit (Debug_image_saved nfp) (w2\<lparr>fs := (fs w2)(nfp \<mapsto> FileNode c)\<rparr>)) of
             (Inl x, w5) \<Rightarrow> (Inl x, w5)
           | (Inr found, w5) \<Rightarrow>
               (Inr (Some (file\<lparr>new_file_path := nfp\<rparr>)),
                if \<not> found then emit (Warning_verification_failed nfp) w5 else w5)))"
proof -
  let ?nfp = "target_path file out" and ?w2 = "prepared file out w"
  note pre = commit_prelude [OF assms]
  show ?thesis
  proof (cases "os_path_exists ?nfp (w\<lparr>fs := (fs w)(target_dir file out \<mapsto> DirNode)\<rparr>)")
    case True
    with pre(2) have ov
      by simp
    from True pre(3) have "os_remove ?nfp (w\<lparr>fs := (fs w)(target_dir file out \<mapsto> DirNode)\<rparr>)
        = Inr ?w2"
      by simp
    with True \<open>ov\<close> show ?thesis
      unfolding save_exif_data_def Let_def target_path_def [symmetric]
      by (simp add: pre(1) split: option.splits)
  next
    case False
    with pre(3) have "w\<lparr>fs := (fs w)(target_dir file out \<mapsto> DirNode)\<rparr> = ?w2"
      by simp
    with False show ?thesis
      unfolding save_exif_data_def Let_def target_path_def [symmetric]
      by (simp add: pre(1) split: option.splits)
  qed
qed

lemma save_video_skip:
  assumes "fs w (target_dir file out) = None \<or> fs w (target_dir file out) = Some DirNode"
    and "((fs w)(target_dir file out \<mapsto> DirNode)) (target_path file out) \<noteq> None"
  shows "save_video_exif_data E file out False w =
           (Inr None, emit (Debug_skipping_exists (filename file))
                        (w\<lparr>fs := (fs w)(target_dir file out \<mapsto> DirNode)\<rparr>))"
  unfolding save_video_exif_data_def Let_def target_path_def [symmetric]
  using assms(2) by (simp add: makedirs_ok [OF assms(1)] os_path_exists_def)

lemma save_exif_skip:
  assumes "fs w (target_dir file out) = None \<or> fs w (target_dir file out) = Some DirNode"
    and "((fs w)(target_dir file out \<mapsto> DirNode)) (target_path file out) \<noteq> None"
  shows "save_exif_data E file img out False w =
           (Inr None, emit (Debug_skipping_exists (filename file))
                        (w\<lparr>fs := (fs w)(target_dir file out \<mapsto> DirNode)\<rparr>))"
  unfolding save_exif_data_def Let_def target_path_def [symmetric]
  using assms(2) by (simp add: makedirs_ok [OF assms(1)] os_path_exists_def)

lemma check_exif_items_cases:
  "check_exif_items E d w = (False, w)
   \<or> (\<exists>s. check_exif_items E d w = (True, emit (Debug_found_exif_date s) w))"
  by (induction E d w rule: check_exif_items.induct)
     (auto split: exif_value.splits option.splits)

lemma check_exif_items_fst:
  "fst (check_exif_items E d w) = fst (check_exif_items E d w')"
  by (induction E d w rule: check_exif_items.induct)
     (auto split: exif_value.splits option.splits)

lemma open_rb_cong: "fs w p = fs w' p' \<Longrightarrow> open_rb p w = open_rb p' w'"
  by (simp add: open_rb_def)

lemma Image_open_cong: "fs w p = fs w' p' \<Longrightarrow> Image_open E p w = Image_open E p' w'"
  by (simp add: Image_open_def open_rb_cong [of w p w' p'])

lemma export_exif_data_cong:
  "fs w (file_path f) = fs w' (file_path f') \<Longrightarrow> export_exif_data E f w = export_exif_data E f' w'"
  by (simp add: export_exif_data_def Image_open_cong [of w "file_path f" w' "file_path f'"])

lemma check_exif_cong:
  assumes "fs w (file_path f) = fs w' (file_path f')"
  shows "fst (check_exif E f w) = fst (check_exif E f' w')"
proof -
  have "fst (check_exif_items E d w) = fst (check_exif_items E d w')" for d
    by (rule check_exif_items_fst)
  then show ?thesis
    by (simp add: check_exif_def export_exif_data_cong [OF assms] split_beta
        split: sum.splits option.splits)
qed

lemma check_exif_cases:
  "(\<exists>x. check_exif E f w = (Inl x, w))
   \<or> check_exif E f w = (Inr False, w)
   \<or> (\<exists>s. check_exif E f w = (Inr True, emit (Debug_found_exif_date s) w))"
proof (cases "export_exif_data E f w")
  case (Inl x)
  then show ?thesis
    by (simp add: check_exif_def)
next
  case (Inr data)
  show ?thesis
  proof (cases data)
    case None
    with Inr show ?thesis
      by (simp add: check_exif_def)
  next
    case (Some d)
    from check_exif_items_cases [of E d w] Inr Some show ?thesis
      by (auto simp: check_exif_def)
  qed
qed

lemma check_exif_False: "fst (check_exif E f w) = Inr False \<Longrightarrow> check_exif E f w = (Inr False, w)"
  using check_exif_cases [of E f w] by auto

lemma check_exif_fs [simp]: "fs (snd (check_exif E f w)) = fs w"
  using check_exif_cases [of E f w] by auto

lemma check_exif_returns_readable:
  assumes "fst (check_exif E f w) = Inr b"
  shows "\<exists>im. Image_open E (file_path f) w = Inr im"
  using assms
  by (cases "Image_open E (file_path f) w") (simp_all add: check_exif_def export_exif_data_def)

lemma Image_open_events [simp]:
  "Image_open E p (w\<lparr>events := evs\<rparr>) = Image_open E p w"
  by (simp add: Image_open_def open_rb_def)


lemma process_file_image:
  assumes "extension file \<notin> set VIDEO_EXT"
    and "fst (check_exif E file w) = Inr False"
    and "parsed_date (fst (parse_filename_to_date file)) \<noteq> []"
    and "Image_open E (file_path file) w = Inr im"
  shows "process_file E file a w =
     (let file1 = fst (parse_filename_to_date file);
          w2 = w\<lparr>events := events w @ snd (parse_filename_to_date file)\<rparr>;
          syn = new_image_exif_data E file1 w2
      in case save_exif_data E (fst (fst syn)) im (output_path a) (overwrite a) (snd syn) of
           (Inl x, w4) \<Rightarrow> (Inl x, w4)
         | (Inr None, w4) \<Rightarrow> (Inr (), w4)
         | (Inr (Some file3), w4) \<Rightarrow>
             (Inr (), emit (Spinner_succeed_file (filename file3) (parsed_date file3)) w4))"
  using assms check_exif_False [OF assms(2)]
  by (simp add: process_file_def Let_def split_beta)

lemma new_image_exif_data_simps [simp]:
  "snd (new_image_exif_data E f w) =
     emit (Debug_exif_created [(DateTimeOriginal, Bytes (encode_utf8 (parsed_date f))),
                               (DateTimeDigitized, Bytes (encode_utf8 (parsed_date f)))]) w"
  "fst (fst (new_image_exif_data E f w)) = f\<lparr>exif_bytes := snd (fst (new_image_exif_data E f w))\<rparr>"
  "snd (fst (new_image_exif_data E f w')) = snd (fst (new_image_exif_data E f w))"
  by (simp_all add: new_image_exif_data_def Let_def)

lemma can_commit_exif_bytes [simp]:
  "can_commit (f\<lparr>exif_bytes := b\<rparr>) out ov w = can_commit f out ov w"
  "target_path (f\<lparr>exif_bytes := b\<rparr>) out = target_path f out"
  "target_dir (f\<lparr>exif_bytes := b\<rparr>) out = target_dir f out"
  "prepared (f\<lparr>exif_bytes := b\<rparr>) out w = prepared f out w"
  by (simp_all add: can_commit_def target_dir_def target_path_def prepared_def)

lemma prepared_emit [simp]:
  "prepared f out (emit e w) = emit e (prepared f out w)"
  "prepared f out (w\<lparr>events := evs\<rparr>) = (prepared f out w)\<lparr>events := evs\<rparr>"
  by (simp_all add: prepared_def emit_def)

lemma new_events_append [simp]:
  "events w' = events w @ evs \<Longrightarrow> new_events w w' = evs"
  by (simp add: new_events_def)




lemma example_video_target:
  "target_dir example_video ''/out'' = ''/out''"
  "target_path example_video ''/out'' = ''/out/VID-20230415-WA0002.mp4''"
  by (simp_all add: target_dir_def target_path_def example_video_def File_default_def
      os_path_join_def)

lemma example_image_target:
  "target_dir example_image ''/out'' = ''/out''"
  "target_path example_image ''/out'' = ''/out/IMG-20230415-WA0001.jpg''"
  by (simp_all add: target_dir_def target_path_def example_image_def File_default_def
      os_path_join_def)


lemma example_image_parsed:
  "parsed_date (fst (parse_filename_to_date example_image)) = ''2023:04:15 00:00:00''"
  by code_simp


lemma process_file_image_saved:
  assumes "extension file \<notin> set VIDEO_EXT"
    and "fst (check_exif E file w) = Inr False"
    and "parsed_date (fst (parse_filename_to_date file)) \<noteq> []"
    and "can_commit file (output_path a) (overwrite a) w"
    and "fs w (file_path file) = Some (FileNode im)"
    and "image_save E im (snd (fst (new_image_exif_data E (fst (parse_filename_to_date file)) w)))
           = Some c"
  shows "\<exists>evs. events (snd (process_file E file a w)) = events w @ evs
           \<and> fs (snd (process_file E file a w)) (target_path file (output_path a))
               = Some (FileNode c)
           \<and> (\<forall>f'. file_path f' = target_path file (output_path a) \<longrightarrow>
                (fst (check_exif E f' (snd (process_file E file a w))) = Inr False \<longrightarrow>
                   outcome_of (process_file E file a w) = Some written
                   \<and> Warning_verification_failed (target_path file (output_path a)) \<in> set evs)
              \<and> (fst (check_exif E f' (snd (process_file E file a w))) = Inr True \<longrightarrow>
                   outcome_of (process_file E file a w) = Some written
                   \<and> Warning_verification_failed (target_path file (output_path a)) \<notin> set evs))"
proof -
  let ?out = "output_path a" and ?nfp = "target_path file (output_path a)"
  let ?file1 = "fst (parse_filename_to_date file)"
  let ?w2 = "w\<lparr>events := events w @ snd (parse_filename_to_date file)\<rparr>"
  let ?dict = "[(DateTimeOriginal, Bytes (encode_utf8 (parsed_date ?file1))),
                (DateTimeDigitized, Bytes (encode_utf8 (parsed_date ?file1)))]"
  let ?eb = "snd (fst (new_image_exif_data E ?file1 w))"
  let ?file2 = "?file1\<lparr>exif_bytes := ?eb\<rparr>"
  let ?saved = "File_default\<lparr>filename := filename ?file2, file_path := ?nfp,
                    new_file_path := ?nfp, extension := extension ?file2\<rparr>"
  let ?w3 = "prepared file ?out (emit (Debug_exif_created ?dict) ?w2)"
  let ?w4 = "emit (Debug_image_saved ?nfp) (?w3\<lparr>fs := (fs ?w3)(?nfp \<mapsto> FileNode c)\<rparr>)"
  from assms(2) obtain im' where "Image_open E (file_path file) w = Inr im'"
    using check_exif_returns_readable by blast
  with assms(5) have opened: "Image_open E (file_path file) w = Inr im"
    by (auto simp: Image_open_def open_rb_def split: if_splits)
  have eb: "snd (fst (new_image_exif_data E ?file1 ?w2)) = ?eb"
    by simp
  have pf: "process_file E file a w =
      (case check_exif E ?saved ?w4 of
         (Inl x, w5) \<Rightarrow> (Inl x, w5)
       | (Inr found, w5) \<Rightarrow>
           (Inr (), emit (Spinner_succeed_file (filename file) (parsed_date ?file1))
              (if \<not> found then emit (Warning_verification_failed ?nfp) w5 else w5)))"
    using assms(4,6)
    by (simp add: process_file_image [OF assms(1-3) opened] Let_def eb save_exif_commit
        split: prod.splits sum.splits)
  have w4: "fs ?w4 ?nfp = Some (FileNode c)" "events ?w4 = events w
      @ snd (parse_filename_to_date file) @ [Debug_exif_created ?dict, Debug_image_saved ?nfp]"
    by simp_all
  have same: "fst (check_exif E f' w') = fst (check_exif E ?saved ?w4)"
    if "file_path f' = ?nfp" "fs w' ?nfp = Some (FileNode c)" for f' w'
    using that by (intro check_exif_cong) simp
  from check_exif_cases [of E ?saved ?w4] consider
    x where "check_exif E ?saved ?w4 = (Inl x, ?w4)"
    | "check_exif E ?saved ?w4 = (Inr False, ?w4)"
    | s where "check_exif E ?saved ?w4 = (Inr True, emit (Debug_found_exif_date s) ?w4)"
    by blast
  then show ?thesis
  proof cases
    case 1
    then have res: "process_file E file a w = (Inl x, ?w4)"
      by (simp add: pf)
    have "fst (check_exif E f' ?w4) = Inl x" if "file_path f' = ?nfp" for f'
      using same [OF that w4(1)] 1 by simp
    with w4 show ?thesis
      unfolding res by (intro exI [of _ "snd (parse_filename_to_date file)
        @ [Debug_exif_created ?dict, Debug_image_saved ?nfp]"]) simp
  next
    case 2
    let ?w' = "emit (Spinner_succeed_file (filename file) (parsed_date ?file1))
      (emit (Warning_verification_failed ?nfp) ?w4)"
    from 2 have res: "process_file E file a w = (Inr (), ?w')"
      by (simp add: pf)
    have "fst (check_exif E f' ?w') = Inr False" if "file_path f' = ?nfp" for f'
      using same [OF that, of ?w'] 2 by simp
    then show ?thesis
      unfolding res
      by (intro exI [of _ "snd (parse_filename_to_date file)
        @ [Debug_exif_created ?dict, Debug_image_saved ?nfp,
           Warning_verification_failed ?nfp,
           Spinner_succeed_file (filename file) (parsed_date ?file1)]"])
        (simp add: outcome_of_def)
  next
    case 3
    let ?w' = "emit (Spinner_succeed_file (filename file) (parsed_date ?file1))
      (emit (Debug_found_exif_date s) ?w4)"
    from 3 have res: "process_file E file a w = (Inr (), ?w')"
      by (simp add: pf)
    have "fst (check_exif E f' ?w') = Inr True" if "file_path f' = ?nfp" for f'
      using same [OF that, of ?w'] 3 by simp
    moreover have "Warning_verification_failed ?nfp \<notin> set (snd (parse_filename_to_date file))"
      by (auto simp: parse_filename_to_date_def Let_def split: option.splits)
    ultimately show ?thesis
      unfolding res
      by (intro exI [of _ "snd (parse_filename_to_date file)
        @ [Debug_exif_created ?dict, Debug_image_saved ?nfp, Debug_found_exif_date s,
           Spinner_succeed_file (filename file) (parsed_date ?file1)]"])
        (simp add: outcome_of_def)
  qed
qed

text \<open>
  C8. For an image-class file that is written (no date tag was found in it, its
  filename gives a date, the target can be committed and the save succeeds with content
  \<open>c\<close>): the target holds \<open>c\<close> afterwards whatever the verification says; when the
  presence check on the written target finds no date tag, the warning is logged and the
  outcome is still written; when it finds one, the outcome is written without the
  warning.
\<close>

theorem verification_failure_keeps_written_file:
  assumes "extension file \<notin> set VIDEO_EXT"
    and "fst (check_exif E file w) = Inr False"
    and "parsed_date (fst (parse_filename_to_date file)) \<noteq> []"
    and "can_commit file (output_path a) (overwrite a) w"
    and "fs w (file_path file) = Some (FileNode im)"
    and "image_save E im (snd (fst (new_image_exif_data E (fst (parse_filename_to_date file)) w)))
           = Some c"
  shows "fs (snd (process_file E file a w)) (target_path file (output_path a)) = Some (FileNode c)
    \<and> (fst (check_exif E (file\<lparr>file_path := target_path file (output_path a)\<rparr>)
               (snd (process_file E file a w))) = Inr False \<longrightarrow>
         outcome_of (process_file E file a w) = Some written
         \<and> Warning_verification_failed (target_path file (output_path a))
             \<in> set (new_events w (snd (process_file E file a w))))
    \<and> (fst (check_exif E (file\<lparr>file_path := target_path file (output_path a)\<rparr>)
               (snd (process_file E file a w))) = Inr True \<longrightarrow>
         outcome_of (process_file E file a w) = Some written
         \<and> Warning_verification_failed (target_path file (output_path a))
             \<notin> set (new_events w (snd (process_file E file a w))))"
proof -
  let ?nfp = "target_path file (output_path a)"
  from process_file_image_saved [OF assms] obtain evs
    where evs: "events (snd (process_file E file a w)) = events w @ evs"
      and kept: "fs (snd (process_file E file a w)) ?nfp = Some (FileNode c)"
      and verdict: "\<forall>f'. file_path f' = ?nfp \<longrightarrow>
        (fst (check_exif E f' (snd (process_file E file a w))) = Inr False \<longrightarrow>
           outcome_of (process_file E file a w) = Some written
           \<and> Warning_verification_failed ?nfp \<in> set evs)
        \<and> (fst (check_exif E f' (snd (process_file E file a w))) = Inr True \<longrightarrow>
           outcome_of (process_file E file a w) = Some written
           \<and> Warning_verification_failed ?nfp \<notin> set evs)"
    by blast
  from evs have "new_events w (snd (process_file E file a w)) = evs"
    by simp
  moreover have "file_path (file\<lparr>file_path := ?nfp\<rparr>) = ?nfp"
    by simp
  ultimately show ?thesis
    using kept verdict by metis
qed

theorem verification_failure_keeps_written_file_witness:
  "fs (snd (process_file (example_env\<lparr>image_save := \<lambda>c b. Some ''JPG''\<rparr>) example_image
        example_args example_world)) ''/out/IMG-20230415-WA0001.jpg'' = Some (FileNode ''JPG'')
   \<and> outcome_of (process_file (example_env\<lparr>image_save := \<lambda>c b. Some ''JPG''\<rparr>) example_image
        example_args example_world) = Some written
   \<and> Warning_verification_failed ''/out/IMG-20230415-WA0001.jpg''
        \<in> set (new_events example_world
             (snd (process_file (example_env\<lparr>image_save := \<lambda>c b. Some ''JPG''\<rparr>) example_image
                example_args example_world)))"
proof -
  let ?E = "example_env\<lparr>image_save := \<lambda>c b. Some ''JPG''\<rparr>"
  let ?w' = "snd (process_file ?E example_image example_args example_world)"
  let ?nfp = "''/out/IMG-20230415-WA0001.jpg''"
  have ext: "extension example_image \<notin> set VIDEO_EXT"
    by (simp add: example_image_def VIDEO_EXT_def)
  have absent: "fst (check_exif ?E example_image example_world) = Inr False"
    by (simp add: check_exif_def export_exif_data_def Image_open_def open_rb_def
        example_env_def example_image_def example_world_def)
  have date: "parsed_date (fst (parse_filename_to_date example_image)) \<noteq> []"
    by (simp add: example_image_parsed)
  have free: "can_commit example_image (output_path example_args) (overwrite example_args)
      example_world"
    by (simp add: can_commit_def example_args_def example_image_target example_world_def)
  have src: "fs example_world (file_path example_image) = Some (FileNode ''JPG'')"
    by (simp add: example_world_def example_image_def)
  have saved: "image_save ?E ''JPG'' (snd (fst (new_image_exif_data ?E
      (fst (parse_filename_to_date example_image)) example_world))) = Some ''JPG''"
    by simp
  note claim = verification_failure_keeps_written_file [OF ext absent date free src saved]
  have tgt: "target_path example_image (output_path example_args) = ?nfp"
    by (simp add: example_args_def example_image_target)
  from claim have kept: "fs ?w' ?nfp = Some (FileNode ''JPG'')"
    by (simp add: tgt)
  have "fst (check_exif ?E (example_image\<lparr>file_path := ?nfp\<rparr>) ?w')
      = fst (check_exif ?E example_image example_world)"
    by (rule check_exif_cong) (simp add: kept src)
  with absent have "fst (check_exif ?E (example_image\<lparr>file_path := ?nfp\<rparr>) ?w') = Inr False"
    by simp
  with claim kept show ?thesis
    by (simp add: tgt)
qed

text \<open>
  C4. In both save functions alike: when the target path exists and overwrite is not
  requested, the function returns \<open>None\<close> after logging that the file already exists,
  and the store is unchanged; when the target is an existing file and overwrite is
  requested, the function behaves as on the store from which that file has been
  removed, and a write that fails leaves nothing at the target path.
\<close>

theorem collision_policy:
  "(fs w (target_dir file out) = Some DirNode \<and> fs w (target_path file out) \<noteq> None \<longrightarrow>
      save_exif_data E file img out False w
        = (Inr None, emit (Debug_skipping_exists (filename file)) w)
      \<and> save_video_exif_data E file out False w
        = (Inr None, emit (Debug_skipping_exists (filename file)) w))
   \<and> (fs w (target_dir file out) = Some DirNode
        \<and> fs w (target_path file out) = Some (FileNode c0) \<longrightarrow>
      save_exif_data E file img out True w
        = save_exif_data E file img out True (w\<lparr>fs := (fs w)(target_path file out := None)\<rparr>)
      \<and> save_video_exif_data E file out True w
        = save_video_exif_data E file out True (w\<lparr>fs := (fs w)(target_path file out := None)\<rparr>)
      \<and> (image_save E img (exif_bytes file) = None \<longrightarrow>
           fs (snd (save_exif_data E file img out True w)) (target_path file out) = None)
      \<and> (fs w (file_path file) = None \<longrightarrow>
           fs (snd (save_video_exif_data E file out True w)) (target_path file out) = None))"
proof (intro conjI impI)
  assume a: "fs w (target_dir file out) = Some DirNode \<and> fs w (target_path file out) \<noteq> None"
  then have same: "w\<lparr>fs := (fs w)(target_dir file out \<mapsto> DirNode)\<rparr> = w"
    by (simp add: fun_upd_idem)
  from a have "save_exif_data E file img out False w
        = (Inr None, emit (Debug_skipping_exists (filename file))
             (w\<lparr>fs := (fs w)(target_dir file out \<mapsto> DirNode)\<rparr>))"
    by (intro save_exif_skip) simp_all
  then show "save_exif_data E file img out False w
        = (Inr None, emit (Debug_skipping_exists (filename file)) w)"
    by (simp only: same)
  from a have "save_video_exif_data E file out False w
        = (Inr None, emit (Debug_skipping_exists (filename file))
             (w\<lparr>fs := (fs w)(target_dir file out \<mapsto> DirNode)\<rparr>))"
    by (intro save_video_skip) simp_all
  then show "save_video_exif_data E file out False w
        = (Inr None, emit (Debug_skipping_exists (filename file)) w)"
    by (simp only: same)
next
  assume b: "fs w (target_dir file out) = Some DirNode
        \<and> fs w (target_path file out) = Some (FileNode c0)"
  let ?w0 = "w\<lparr>fs := (fs w)(target_path file out := None)\<rparr>"
  from b have ne: "target_path file out \<noteq> target_dir file out"
    by auto
  with b have c1: "can_commit file out True w" and c2: "can_commit file out True ?w0"
    by (simp_all add: can_commit_def)
  from ne have prep: "prepared file out ?w0 = prepared file out w"
    by (auto simp: prepared_def intro!: world_eqI)
  show "save_exif_data E file img out True w = save_exif_data E file img out True ?w0"
    by (simp add: save_exif_commit [OF c1] save_exif_commit [OF c2] prep)
  show "save_video_exif_data E file out True w = save_video_exif_data E file out True ?w0"
    by (simp add: save_video_commit [OF c1] save_video_commit [OF c2] prep)
  show "fs (snd (save_exif_data E file img out True w)) (target_path file out) = None"
    if "image_save E img (exif_bytes file) = None"
    using that by (simp add: save_exif_commit [OF c1])
  show "fs (snd (save_video_exif_data E file out True w)) (target_path file out) = None"
    if "fs w (file_path file) = None"
  proof -
    from that b have "fs (prepared file out w) (file_path file) = None"
      by (auto simp: prepared_def)
    then show ?thesis
      by (simp add: save_video_commit [OF c1] open_rb_def)
  qed
qed

theorem collision_policy_witness:
  "save_exif_data example_env example_image ''JPG'' ''/out'' False example_world_taken
     = (Inr None, emit (Debug_skipping_exists ''IMG-20230415-WA0001.jpg'') example_world_taken)
   \<and> save_video_exif_data example_env example_video ''/out'' False example_world_taken
     = (Inr None, emit (Debug_skipping_exists ''VID-20230415-WA0002.mp4'') example_world_taken)
   \<and> save_exif_data example_env example_image ''JPG'' ''/out'' True example_world_taken
     = save_exif_data example_env example_image ''JPG'' ''/out'' True
         (example_world_taken\<lparr>fs := (fs example_world_taken)
            (''/out/IMG-20230415-WA0001.jpg'' := None)\<rparr>)
   \<and> save_video_exif_data example_env example_video ''/out'' True example_world_taken
     = save_video_exif_data example_env example_video ''/out'' True
         (example_world_taken\<lparr>fs := (fs example_world_taken)
            (''/out/VID-20230415-WA0002.mp4'' := None)\<rparr>)"
proof -
  have dir: "fs example_world_taken ''/out'' = Some DirNode"
    by (simp add: example_world_taken_def)
  have img: "fs example_world_taken ''/out/IMG-20230415-WA0001.jpg'' = Some (FileNode ''JPGold'')"
    by (simp add: example_world_taken_def)
  have vid: "fs example_world_taken ''/out/VID-20230415-WA0002.mp4'' = Some (FileNode ''MP4old'')"
    by (simp add: example_world_taken_def)
  have names: "filename example_image = ''IMG-20230415-WA0001.jpg''"
    "filename example_video = ''VID-20230415-WA0002.mp4''"
    by (simp_all add: example_image_def example_video_def)
  from collision_policy [of example_world_taken example_image "''/out''" example_env "''JPG''"
      "''JPGold''"] dir img
  have "save_exif_data example_env example_image ''JPG'' ''/out'' False example_world_taken
      = (Inr None, emit (Debug_skipping_exists ''IMG-20230415-WA0001.jpg'') example_world_taken)"
    and "save_exif_data example_env example_image ''JPG'' ''/out'' True example_world_taken
      = save_exif_data example_env example_image ''JPG'' ''/out'' True
         (example_world_taken\<lparr>fs := (fs example_world_taken)
            (''/out/IMG-20230415-WA0001.jpg'' := None)\<rparr>)"
    by (simp_all add: example_image_target names)
  moreover
  from collision_policy [of example_world_taken example_video "''/out''" example_env "''JPG''"
      "''MP4old''"] dir vid
  have "save_video_exif_data example_env example_video ''/out'' False example_world_taken
      = (Inr None, emit (Debug_skipping_exists ''VID-20230415-WA0002.mp4'') example_world_taken)"
    and "save_video_exif_data example_env example_video ''/out'' True example_world_taken
      = save_video_exif_data example_env example_video ''/out'' True
         (example_world_taken\<lparr>fs := (fs example_world_taken)
            (''/out/VID-20230415-WA0002.mp4'' := None)\<rparr>)"
    by (simp_all add: example_video_target names)
  ultimately show ?thesis
    by simp
qed

section \<open>The loop of the orchestrator\<close>

lemma attempted_append [simp]: "attempted (xs @ ys) = attempted xs @ attempted ys"
  by (simp add: attempted_def)

lemma attempted_Nil [simp]: "attempted [] = []"
  by (simp add: attempted_def)

lemma attempted_Cons [simp]:
  "attempted (e # es) = (case e of Spinner_processing n \<Rightarrow> [n] | _ \<Rightarrow> []) @ attempted es"
  by (simp add: attempted_def)




lemma check_exif_attempted [simp]:
  "attempted (events (snd (check_exif E f w))) = attempted (events w)"
  using check_exif_cases [of E f w] by (auto simp: attempted_Cons)








lemma main_loop_append:
  "main_loop E a (xs @ ys) w = main_loop E a ys (main_loop E a xs w)"
  by (induction xs arbitrary: w) simp_all




section \<open>File inventory builder: the claims\<close>


lemma located_leaf [simp]: "\<not> located Regular rel n e" "\<not> located Special rel n e"
  by (auto elim: located.cases)

















section \<open>Metadata presence check: the claims\<close>

lemma occurs_re_search: "occurs p s \<longleftrightarrow> re_search p s \<noteq> None"
proof -
  have "occurs_at p s i \<Longrightarrow> i \<le> length s" for i
    by (simp add: occurs_at_def)
  then show ?thesis
    unfolding occurs_def re_search_None by blast
qed

lemma check_exif_items_found:
  "fst (check_exif_items E d w) \<longleftrightarrow>
     (\<exists>(t, v) \<in> set d. \<exists>b s. v = Bytes b \<and> bytes_decode_utf8 E b = Some s
        \<and> occurs exif_date_pattern s)"
  by (induction E d w rule: check_exif_items.induct)
     (auto simp: occurs_re_search split: exif_value.splits option.splits)

lemma check_exif_items_skip:
  "bytes_decode_utf8 E b = None \<Longrightarrow>
     check_exif_items E (xs @ (t, Bytes b) # ys) w = check_exif_items E (xs @ ys) w"
  by (induction xs) (auto split: exif_value.splits option.splits)

lemma export_exif_data_raises:
  "export_exif_data E f w = Inl x \<longleftrightarrow>
     (fs w (file_path f) = None \<and> x = FileNotFoundError)
     \<or> (fs w (file_path f) = Some DirNode \<and> x = IsADirectoryError)
     \<or> (\<exists>c. fs w (file_path f) = Some (FileNode c)
           \<and> ((\<not> image_decodable E c \<and> x = UnidentifiedImageError)
              \<or> (image_decodable E c
                  \<and> (\<exists>b. image_info_exif E c = Some b \<and> b \<noteq> [] \<and> piexif_load_Exif E b = None)
                  \<and> x = ExifLoadError)))"
  by (auto simp: export_exif_data_def Image_open_def open_rb_def
      split: option.splits node.splits if_splits)

lemma check_exif_raises: "fst (check_exif E f w) = Inl x \<longleftrightarrow> export_exif_data E f w = Inl x"
  by (auto simp: check_exif_def split_beta split: sum.splits option.splits if_splits)

lemma check_exif_no_block:
  assumes "fs w (file_path f) = Some (FileNode c)" and "image_decodable E c"
    and "image_info_exif E c = None \<or> image_info_exif E c = Some []"
  shows "check_exif E f w = (Inr False, w)"
  using assms
  by (auto simp: check_exif_def export_exif_data_def Image_open_def open_rb_def)

lemma check_exif_found:
  assumes "export_exif_data E f w = Inr (Some d)"
  shows "fst (check_exif E f w) = Inr True \<longleftrightarrow>
     (\<exists>(t, v) \<in> set d. \<exists>b s. v = Bytes b \<and> bytes_decode_utf8 E b = Some s
        \<and> occurs exif_date_pattern s)"
proof (cases "d = []")
  case True
  with assms show ?thesis
    by (simp add: check_exif_def)
next
  case False
  with assms have "fst (check_exif E f w) = Inr (fst (check_exif_items E d w))"
    by (simp add: check_exif_def split_beta)
  then show ?thesis
    by (simp add: check_exif_items_found)
qed

text \<open>
  C2, as amended. The presence check catches only the decoding error of a single field:
  a field whose bytes do not decode is skipped and the scan goes on. It raises to its
  caller exactly when the file cannot be opened, is not a decodable image, or carries a
  non-empty metadata block that cannot be loaded. A decodable image without a metadata
  block (or with an empty one) gives false. When the metadata is loaded, the check
  returns true if and only if some byte-string field decodes to a text in which the
  pattern four digits, colon, two digits, colon, two digits, space, two digits, colon,
  two digits, colon, two digits occurs.
\<close>

theorem check_exif_raises_or_scans:
  "(fst (check_exif E f w) = Inl x \<longleftrightarrow>
      (fs w (file_path f) = None \<and> x = FileNotFoundError)
      \<or> (fs w (file_path f) = Some DirNode \<and> x = IsADirectoryError)
      \<or> (\<exists>c. fs w (file_path f) = Some (FileNode c)
            \<and> ((\<not> image_decodable E c \<and> x = UnidentifiedImageError)
               \<or> (image_decodable E c
                   \<and> (\<exists>b. image_info_exif E c = Some b \<and> b \<noteq> [] \<and> piexif_load_Exif E b = None)
                   \<and> x = ExifLoadError))))
   \<and> (fs w (file_path f) = Some (FileNode c) \<and> image_decodable E c
        \<and> (image_info_exif E c = None \<or> image_info_exif E c = Some []) \<longrightarrow>
        check_exif E f w = (Inr False, w))
   \<and> (bytes_decode_utf8 E b = None \<longrightarrow>
        check_exif_items E (xs @ (t, Bytes b) # ys) w = check_exif_items E (xs @ ys) w)
   \<and> (export_exif_data E f w = Inr (Some d) \<longrightarrow>
        (fst (check_exif E f w) = Inr True \<longleftrightarrow>
           (\<exists>(t, v) \<in> set d. \<exists>b s. v = Bytes b \<and> bytes_decode_utf8 E b = Some s
              \<and> occurs exif_date_pattern s)))"
  using export_exif_data_raises [of E f w x] check_exif_raises [of E f w x]
    check_exif_no_block [of w f c E] check_exif_items_skip [of E b xs t ys w]
    check_exif_found [of E f w d]
  by blast

text \<open>
  C2 as stated lets the check never raise. For a file with an image extension whose
  content is not an image, the exception of \<open>Image.open\<close> leaves \<open>check_exif\<close>.
\<close>

theorem check_exif_raises_on_undecodable_file:
  "fst (check_exif example_env example_notes example_world) = Inl UnidentifiedImageError"
  by (simp add: check_exif_def export_exif_data_def Image_open_def open_rb_def
      example_env_def example_notes_def example_world_def)

theorem check_exif_raises_or_scans_witness:
  "check_exif example_env example_image example_world = (Inr False, example_world)
   \<and> check_exif_items example_env
        ([] @ (DateTimeOriginal, Bytes [CHR 0xFF]) # [(DateTimeDigitized, Bytes ''2021:01:02 03:04:05'')])
        example_world
      = check_exif_items example_env
          ([] @ [(DateTimeDigitized, Bytes ''2021:01:02 03:04:05'')]) example_world
   \<and> fst (check_exif example_env example_image example_world_tagged) = Inr True
   \<and> fst (check_exif example_env (example_image\<lparr>file_path := ''/nowhere''\<rparr>) example_world)
       = Inl FileNotFoundError"
proof -
  let ?d = "[(DateTimeOriginal, Bytes ''2021:01:02 03:04:05'')]"
  have src: "fs example_world (file_path example_image) = Some (FileNode ''JPG'')"
    by (simp add: example_world_def example_image_def)
  have img: "image_decodable example_env ''JPG''" "image_info_exif example_env ''JPG'' = None"
    by (simp_all add: example_env_def)
  have bad: "bytes_decode_utf8 example_env [CHR 0xFF] = None"
    by (simp add: example_env_def)
  have tagged: "export_exif_data example_env example_image example_world_tagged = Inr (Some ?d)"
    by (simp add: export_exif_data_def Image_open_def open_rb_def example_env_def
        example_image_def example_world_tagged_def)
  have good: "bytes_decode_utf8 example_env ''2021:01:02 03:04:05'' = Some ''2021:01:02 03:04:05''"
    by (simp add: example_env_def)
  have pat: "occurs exif_date_pattern ''2021:01:02 03:04:05''"
    unfolding occurs_re_search by code_simp
  have gone: "fs example_world (file_path (example_image\<lparr>file_path := ''/nowhere''\<rparr>)) = None"
    by (simp add: example_world_def)
  from check_exif_raises_or_scans [of example_env example_image example_world
      FileNotFoundError "''JPG''" "[CHR 0xFF]" "[]" DateTimeOriginal
      "[(DateTimeDigitized, Bytes ''2021:01:02 03:04:05'')]" ?d] src img bad
  have one: "check_exif example_env example_image example_world = (Inr False, example_world)"
    and two: "check_exif_items example_env
        ([] @ (DateTimeOriginal, Bytes [CHR 0xFF]) # [(DateTimeDigitized, Bytes ''2021:01:02 03:04:05'')])
        example_world
      = check_exif_items example_env
          ([] @ [(DateTimeDigitized, Bytes ''2021:01:02 03:04:05'')]) example_world"
    by blast+
  from check_exif_raises_or_scans [of example_env example_image example_world_tagged
      FileNotFoundError "''JPG''" "[CHR 0xFF]" "[]" DateTimeOriginal "[]" ?d] tagged good pat
  have three: "fst (check_exif example_env example_image example_world_tagged) = Inr True"
    by auto
  from check_exif_raises_or_scans [of example_env "example_image\<lparr>file_path := ''/nowhere''\<rparr>"
      example_world FileNotFoundError "''JPG''" "[CHR 0xFF]" "[]" DateTimeOriginal "[]" ?d] gone
  have four: "fst (check_exif example_env (example_image\<lparr>file_path := ''/nowhere''\<rparr>)
      example_world) = Inl FileNotFoundError"
    by blast
  from one two three four show ?thesis
    by blast
qed

end
